theory Spec2Isabelle
  imports Main "HOL-Library.Sublist" "HOL-Library.AList"
begin

section \<open>The migrate command of django/core/management/commands/migrate.py\<close>

text \<open>
  The command is stateful Python: it talks to a database connection, a migration loader and
  executor, the app registry, the signal dispatcher and the command's output streams.
  The embedding makes these explicit.
  \<^item> What the collaborators answer is a record \<open>env\<close>: one field per query the command
    makes (\<open>executor.loader.detect_conflicts()\<close>, \<open>executor.loader.migrated_apps\<close>, ...).
  \<^item> What the command does to them is a list of \<open>event\<close>s, one constructor per call site,
    in the order the calls are made.
  \<^item> The only database state the command reads back is the set of table names
    (\<open>connection.introspection.table_names(cursor)\<close>); it is passed in and returned.
  \<^item> Every \<open>raise\<close> is a value of type \<open>error\<close>.

  \<open>add_arguments\<close> only declares the options, and \<open>migration_progress_callback\<close> is called
  by the executor while it migrates; neither is followed here.
\<close>

subsection \<open>Models, app configs, options\<close>

text \<open>
  \<open>model._meta\<close>, restricted to the attributes the command reads. \<open>auto_created\<close> is
  \<open>None\<close> where \<open>opts.auto_created\<close> is \<open>False\<close>, and otherwise holds
  \<open>opts.auto_created._meta.db_table\<close>, the only attribute read through it (line 258).
\<close>

record model =
  object_name :: string
  db_table :: string
  proxy :: bool
  managed :: bool
  auto_created :: "string option"

text \<open>
  An entry of \<open>apps.get_app_configs()\<close>. \<open>management_submodule\<close> is
  \<open>module_has_submodule(app_config.module, "management")\<close>, \<open>models_module\<close> is
  \<open>app_config.models_module is not None\<close>, and \<open>migratable_models\<close> is what
  \<open>router.get_migratable_models(app_config, connection.alias, include_auto_created=False)\<close>
  returns for it.
\<close>

record app_config =
  label :: string
  name :: string
  management_submodule :: bool
  models_module :: bool
  migratable_models :: "model list"

text \<open>The \<open>options\<close> dictionary of \<open>handle\<close>; a positional argument left out is \<open>None\<close>.\<close>

record options =
  opt_verbosity :: int
  opt_interactive :: bool
  opt_traceback :: bool
  opt_load_initial_data :: bool
  opt_database :: string
  opt_fake :: bool
  opt_list :: bool
  opt_test_flush :: bool
  opt_app_label :: "string option"
  opt_migration_name :: "string option"

type_synonym target = "string \<times> string option"
type_synonym migration_key = "string \<times> string"
type_synonym plan = "(migration_key \<times> bool) list"

subsection \<open>The collaborators\<close>

text \<open>
  \<^item> \<open>conflicts\<close>: the items of the dictionary \<open>executor.loader.detect_conflicts()\<close>, each set of
    names in the order \<open>", ".join(names)\<close> iterates it.
  \<^item> \<open>unmigrated_apps\<close>: \<open>executor.loader.unmigrated_apps\<close> in its iteration order.
  \<^item> \<open>disk_migrations\<close>: the keys \<open>(app_label, name)\<close> of the loader's migrations.
  \<^item> \<open>executor_tables\<close>: the table names of the database once
    \<open>MigrationExecutor(connection, ...)\<close> has been built (line 85), given those before. The
    executor is not under src/; building it loads the migrations and reads which are applied,
    and that may create the table they are recorded in.
  \<^item> \<open>leaf_nodes\<close>: \<open>executor.loader.graph.leaf_nodes()\<close>.
  \<^item> \<open>set_iteration\<close>: the order in which Python iterates \<open>set(xs)\<close>, for the labels \<open>xs\<close>
    of line 151: each label once, in an order the source does not fix.
  \<^item> \<open>migration_plan\<close>: \<open>executor.migration_plan\<close>.
  \<^item> \<open>migrate_error\<close>: \<open>Some e\<close> when \<open>executor.migrate\<close> raises.
  \<^item> \<open>changes\<close>: the keys of \<open>autodetector.changes(graph=executor.loader.graph)\<close>.
  \<^item> \<open>table_name_converter\<close>: \<open>connection.introspection.table_name_converter\<close>.
  \<^item> \<open>can_rollback_ddl\<close>: \<open>connection.features.can_rollback_ddl\<close>.
  \<^item> \<open>create_model_error\<close>: \<open>Some e\<close> when \<open>editor.create_model(model)\<close> raises.
  \<^item> \<open>editor_deferred_sql\<close>: the contents of \<open>editor.deferred_sql\<close> after
    \<open>editor.create_model(model)\<close> on the editor just acquired.
  \<^item> \<open>execute_error\<close>: \<open>Some e\<close> when \<open>cursor.execute(sql)\<close> raises.
  \<^item> \<open>custom_sql_for_model\<close>: \<open>custom_sql_for_model(model, no_style(), connection)\<close>,
    \<open>Inr\<close> the statements it returns and \<open>Inl e\<close> when it raises (it reads them from files).
\<close>

record env =
  app_configs :: "app_config list"
  conflicts :: "(string \<times> string list) list"
  migrated_apps :: "string set"
  unmigrated_apps :: "string list"
  disk_migrations :: "migration_key list"
  executor_tables :: "string set \<Rightarrow> string set"
  leaf_nodes :: "migration_key list"
  set_iteration :: "string list \<Rightarrow> string list"
  migration_plan :: "target list \<Rightarrow> plan"
  migrate_error :: "string option"
  changes :: "string list"
  table_name_converter :: "string \<Rightarrow> string"
  can_rollback_ddl :: bool
  create_model_error :: "model \<Rightarrow> string option"
  editor_deferred_sql :: "model \<Rightarrow> string list"
  execute_error :: "string \<Rightarrow> string option"
  custom_sql_for_model :: "model \<Rightarrow> string + string list"

subsection \<open>Errors and events\<close>

text \<open>
  \<open>CommandError\<close> carries its message. \<open>DatabaseError\<close> stands for whatever the schema
  editor, the cursor or the executor raise, and \<open>CustomSqlError\<close> for whatever
  \<open>custom_sql_for_model\<close> raises. \<open>IndexError\<close> is \<open>targets[0]\<close> on an empty list (line 154).
\<close>

datatype error = CommandError string | DatabaseError string | CustomSqlError string | IndexError

datatype lookup_error = AmbiguityError | KeyError

datatype retval = ReturnNone | ReturnShowmigrations

text \<open>
  One constructor per call the command makes on a collaborator, named after the call. The two
  loops over \<open>cursor.execute\<close> are told apart by their site: \<open>Execute_deferred\<close> is line 292,
  \<open>Execute_custom\<close> is line 316. Likewise \<open>Atomic_enter sp\<close> enters the
  \<open>transaction.atomic\<close> block of line 271 with \<open>savepoint=sp\<close>, and \<open>Atomic_custom_enter\<close>
  the one of line 314; a block is left by its \<open>commit\<close> event or, on an exception, by its
  \<open>rollback\<close> event. \<open>Schema_editor_exit buf\<close> leaves the \<open>with connection.schema_editor()\<close>
  block normally, \<open>buf\<close> being \<open>editor.deferred_sql\<close> at that moment;
  \<open>Schema_editor_abort\<close> leaves it on an exception. The \<open>self.style\<close> wrappers only colour
  their argument and are left out of \<open>Stdout\<close>.
\<close>

datatype event =
    Import_module string
  | Warn string
  | Call_showmigrations "string list option"
  | Prepare_database
  | Migration_executor
  | Detect_conflicts
  | Get_migration_by_prefix string string
  | Leaf_nodes
  | Migration_plan "target list"
  | Stdout string
  | Stderr string
  | Print_exc
  | Pre_migrate_signal "model set"
  | Post_migrate_signal "model set"
  | Call_flush
  | Autodetector_changes
  | Executor_migrate "target list" plan bool
  | Cursor_open
  | Cursor_close
  | Table_names
  | Atomic_enter bool
  | Atomic_commit
  | Atomic_rollback
  | Atomic_custom_enter
  | Atomic_custom_commit
  | Atomic_custom_rollback
  | Schema_editor_enter
  | Schema_editor_exit "string list"
  | Schema_editor_abort
  | Create_model model
  | Execute_deferred string
  | Execute_custom string
  | Call_loaddata string

subsection \<open>String helpers\<close>

text \<open>\<open>sep.join(xs)\<close>.\<close>

fun join :: "string \<Rightarrow> string list \<Rightarrow> string" where
  "join sep [] = []"
| "join sep [x] = x"
| "join sep (x # y # ys) = x @ sep @ join sep (y # ys)"

text \<open>\<open>stdout.write(msg)\<close> under \<open>if self.verbosity >= k\<close>.\<close>

definition say :: "options \<Rightarrow> int \<Rightarrow> string \<Rightarrow> event list" where
  "say opts k msg = (if opt_verbosity opts \<ge> k then [Stdout msg] else [])"

text \<open>An option that is \<open>None\<close> or a string, read where only its truth value and its text matter:
  \<open>None\<close> and the empty string are both false.\<close>

definition arg :: "string option \<Rightarrow> string" where
  "arg v = (case v of None \<Rightarrow> [] | Some s \<Rightarrow> s)"

definition quoted :: "string \<Rightarrow> string" where
  "quoted s = [CHR 0x27] @ s @ [CHR 0x27]"

subsection \<open>sync_apps: the manifest (lines 241-266)\<close>

text \<open>
  \<open>model_installed\<close> (lines 253-258). In spite of its name it answers whether the model is
  still \<^emph>\<open>to be\<close> installed: the value is \<open>not (... in tables or ...)\<close>.
\<close>

definition model_installed :: "env \<Rightarrow> string set \<Rightarrow> model \<Rightarrow> bool" where
  "model_installed env tables m =
     (\<not> (table_name_converter env (db_table m) \<in> tables \<or>
         (case auto_created m of
            None \<Rightarrow> False
          | Some base_table \<Rightarrow> table_name_converter env base_table \<in> tables)))"

text \<open>\<open>all_models\<close> (lines 246-251).\<close>

definition all_models :: "env \<Rightarrow> string list \<Rightarrow> (string \<times> model list) list" where
  "all_models env app_labels =
     map (\<lambda>ac. (label ac, migratable_models ac))
       (filter (\<lambda>ac. models_module ac \<and> label ac \<in> set app_labels) (app_configs env))"

text \<open>
  \<open>OrderedDict(pairs)\<close>: a key seen again keeps its place and takes the new value, which is
  what \<open>AList.update\<close> does.
\<close>

definition ordered_dict :: "('k \<times> 'v) list \<Rightarrow> ('k \<times> 'v) list" where
  "ordered_dict ps = foldl (\<lambda>d (k, v). AList.update k v d) [] ps"

text \<open>\<open>manifest\<close> (lines 260-263), as \<open>manifest.items()\<close>.\<close>

definition manifest :: "env \<Rightarrow> string set \<Rightarrow> string list \<Rightarrow> (string \<times> model list) list" where
  "manifest env tables app_labels =
     ordered_dict
       (map (\<lambda>(app_name, model_list). (app_name, filter (model_installed env tables) model_list))
          (all_models env app_labels))"

text \<open>\<open>itertools.chain(*manifest.values())\<close> (line 265).\<close>

definition chain_values :: "(string \<times> model list) list \<Rightarrow> model list" where
  "chain_values mf = concat (map snd mf)"

subsection \<open>sync_apps: creating the tables (lines 268-292)\<close>

text \<open>
  The variables the creation loop updates: the list \<open>deferred_sql\<close> (line 272), the set
  \<open>created_models\<close> (line 243), and the table names of the live database.
\<close>

record sync_state =
  deferred_sql :: "string list"
  created_models :: "model set"
  db_tables :: "string set"

text \<open>
  Modelled from the spec: the schema editor (\<open>connection.schema_editor()\<close>,
  \<open>editor.create_model\<close>) is not under src/. Section 4.2 step 4 has it "create its table",
  and section 3 derives the table name the introspection looks for from the object; so a
  \<open>create_model\<close> that returns adds the converted \<open>db_table\<close> of the model to the table
  names of the database.
\<close>

definition table_created :: "env \<Rightarrow> model \<Rightarrow> string set \<Rightarrow> string set" where
  "table_created env m db = insert (table_name_converter env (db_table m)) db"

text \<open>
  One pass of the inner loop (lines 274-287). \<open>editor_buffer\<close> is \<open>editor.deferred_sql\<close>:
  line 285 appends it to the list \<open>deferred_sql\<close>, line 286 empties it, and the editor
  leaves its block with what is then in it.
\<close>

definition create_model_iter ::
  "env \<Rightarrow> options \<Rightarrow> string \<Rightarrow> model \<Rightarrow> sync_state \<Rightarrow> error option \<times> sync_state \<times> event list" where
  "create_model_iter env opts app_name m st =
     (if proxy m \<or> \<not> managed m then (None, st, [])
      else
        let ev = say opts 3 (''    Processing '' @ app_name @ ''.'' @ object_name m @ '' model\<newline>'')
                 @ [Schema_editor_enter]
                 @ say opts 1 (''    Creating table '' @ db_table m @ ''\<newline>'')
                 @ [Create_model m]
        in case create_model_error env m of
             Some e \<Rightarrow> (Some (DatabaseError e), st, ev @ [Schema_editor_abort])
           | None \<Rightarrow>
               let editor_buffer = editor_deferred_sql env m;
                   queue = deferred_sql st @ editor_buffer;
                   editor_buffer = []
               in (None,
                   st\<lparr>deferred_sql := queue,
                      created_models := insert m (created_models st),
                      db_tables := table_created env m (db_tables st)\<rparr>,
                   ev @ [Schema_editor_exit editor_buffer]))"

text \<open>The inner loop \<open>for model in model_list\<close>; an exception ends it.\<close>

fun create_model_list ::
  "env \<Rightarrow> options \<Rightarrow> string \<Rightarrow> model list \<Rightarrow> sync_state \<Rightarrow> error option \<times> sync_state \<times> event list" where
  "create_model_list env opts app_name [] st = (None, st, [])"
| "create_model_list env opts app_name (m # ms) st =
     (case create_model_iter env opts app_name m st of
        (Some e, st', ev) \<Rightarrow> (Some e, st', ev)
      | (None, st', ev) \<Rightarrow>
          (case create_model_list env opts app_name ms st' of
             (r, st'', ev') \<Rightarrow> (r, st'', ev @ ev')))"

text \<open>The outer loop \<open>for app_name, model_list in manifest.items()\<close>.\<close>

fun create_manifest ::
  "env \<Rightarrow> options \<Rightarrow> (string \<times> model list) list \<Rightarrow> sync_state \<Rightarrow> error option \<times> sync_state \<times> event list" where
  "create_manifest env opts [] st = (None, st, [])"
| "create_manifest env opts ((app_name, model_list) # rest) st =
     (case create_model_list env opts app_name model_list st of
        (Some e, st', ev) \<Rightarrow> (Some e, st', ev)
      | (None, st', ev) \<Rightarrow>
          (case create_manifest env opts rest st' of
             (r, st'', ev') \<Rightarrow> (r, st'', ev @ ev')))"

text \<open>\<open>for statement in deferred_sql: cursor.execute(statement)\<close> (lines 291-292).\<close>

fun run_deferred :: "env \<Rightarrow> string list \<Rightarrow> error option \<times> event list" where
  "run_deferred env [] = (None, [])"
| "run_deferred env (statement # rest) =
     (case execute_error env statement of
        Some e \<Rightarrow> (Some (DatabaseError e), [Execute_deferred statement])
      | None \<Rightarrow>
          (case run_deferred env rest of
             (r, ev) \<Rightarrow> (r, Execute_deferred statement # ev)))"

text \<open>
  Leaving \<open>transaction.atomic\<close> on an exception: the tables created inside are gone when the
  backend can roll DDL back, and stay otherwise.
\<close>

definition rolled_back :: "env \<Rightarrow> string set \<Rightarrow> sync_state \<Rightarrow> sync_state" where
  "rolled_back env db st = st\<lparr>db_tables := (if can_rollback_ddl env then db else db_tables st)\<rparr>"

text \<open>Lines 268-292: the \<open>transaction.atomic\<close> block and the message before it.\<close>

definition create_tables ::
  "env \<Rightarrow> options \<Rightarrow> string set \<Rightarrow> (string \<times> model list) list \<Rightarrow> error option \<times> sync_state \<times> event list" where
  "create_tables env opts db mf =
     (let st0 = \<lparr>deferred_sql = [], created_models = {}, db_tables = db\<rparr>;
          ev0 = say opts 1 ''  Creating tables...\<newline>'' @ [Atomic_enter (can_rollback_ddl env)]
      in case create_manifest env opts mf st0 of
           (Some e, st, ev) \<Rightarrow> (Some e, rolled_back env db st, ev0 @ ev @ [Atomic_rollback])
         | (None, st, ev) \<Rightarrow>
             (let ev1 = say opts 1 ''    Running deferred SQL...\<newline>''
              in case run_deferred env (deferred_sql st) of
                   (Some e, ev2) \<Rightarrow>
                     (Some e, rolled_back env db st, ev0 @ ev @ ev1 @ ev2 @ [Atomic_rollback])
                 | (None, ev2) \<Rightarrow> (None, st, ev0 @ ev @ ev1 @ ev2 @ [Atomic_commit])))"

subsection \<open>sync_apps: custom SQL and fixtures (lines 296-342)\<close>

text \<open>\<open>for sql in custom_sql: cursor.execute(sql)\<close> (lines 315-316); \<open>Some e\<close> is the
  exception that ends it.\<close>

fun run_custom :: "env \<Rightarrow> string list \<Rightarrow> string option \<times> event list" where
  "run_custom env [] = (None, [])"
| "run_custom env (sql # rest) =
     (case execute_error env sql of
        Some e \<Rightarrow> (Some e, [Execute_custom sql])
      | None \<Rightarrow>
          (case run_custom env rest of
             (r, ev) \<Rightarrow> (r, Execute_custom sql # ev)))"

definition failed_custom_sql :: "string \<Rightarrow> model \<Rightarrow> string \<Rightarrow> string" where
  "failed_custom_sql app_name m e =
     ''    Failed to install custom SQL for '' @ app_name @ ''.'' @ object_name m
       @ '' model: '' @ e @ ''\<newline>''"

text \<open>
  One pass of the inner loop of lines 303-329. \<open>custom_sql_for_model\<close> (line 306) is called
  outside the \<open>try\<close> of lines 313-323: what it raises leaves the loops, what
  \<open>cursor.execute\<close> raises does not.
\<close>

definition install_custom_sql_model ::
  "env \<Rightarrow> options \<Rightarrow> model set \<Rightarrow> string \<Rightarrow> model \<Rightarrow> error option \<times> event list" where
  "install_custom_sql_model env opts created app_name m =
     (if m \<in> created then
        (case custom_sql_for_model env m of
           Inl e \<Rightarrow> (Some (CustomSqlError e), [])
         | Inr custom_sql \<Rightarrow>
             if custom_sql \<noteq> [] then
               (None,
                say opts 2 (''    Installing custom SQL for '' @ app_name @ ''.'' @ object_name m
                             @ '' model\<newline>'')
                @ [Atomic_custom_enter]
                @ (case run_custom env custom_sql of
                     (None, ev) \<Rightarrow> ev @ [Atomic_custom_commit]
                   | (Some e, ev) \<Rightarrow>
                       ev @ [Atomic_custom_rollback, Stderr (failed_custom_sql app_name m e)]
                       @ (if opt_traceback opts then [Print_exc] else [])))
             else
               (None,
                say opts 3 (''    No custom SQL for '' @ app_name @ ''.'' @ object_name m
                             @ '' model\<newline>'')))
      else (None, []))"

text \<open>The inner loop \<open>for model in model_list\<close> (line 304); an exception ends it.\<close>

fun install_model_list ::
  "env \<Rightarrow> options \<Rightarrow> model set \<Rightarrow> string \<Rightarrow> model list \<Rightarrow> error option \<times> event list" where
  "install_model_list env opts created app_name [] = (None, [])"
| "install_model_list env opts created app_name (m # ms) =
     (case install_custom_sql_model env opts created app_name m of
        (Some e, ev) \<Rightarrow> (Some e, ev)
      | (None, ev) \<Rightarrow>
          (case install_model_list env opts created app_name ms of
             (r, ev') \<Rightarrow> (r, ev @ ev')))"

text \<open>The outer loop \<open>for app_name, model_list in manifest.items()\<close> (line 303).\<close>

fun install_manifest ::
  "env \<Rightarrow> options \<Rightarrow> model set \<Rightarrow> (string \<times> model list) list \<Rightarrow> error option \<times> event list" where
  "install_manifest env opts created [] = (None, [])"
| "install_manifest env opts created ((app_name, model_list) # rest) =
     (case install_model_list env opts created app_name model_list of
        (Some e, ev) \<Rightarrow> (Some e, ev)
      | (None, ev) \<Rightarrow>
          (case install_manifest env opts created rest of
             (r, ev') \<Rightarrow> (r, ev @ ev')))"

text \<open>Lines 301-329.\<close>

definition install_custom_sql ::
  "env \<Rightarrow> options \<Rightarrow> model set \<Rightarrow> (string \<times> model list) list \<Rightarrow> error option \<times> event list" where
  "install_custom_sql env opts created mf =
     (case install_manifest env opts created mf of
        (r, ev) \<Rightarrow> (r, say opts 1 ''  Installing custom SQL...\<newline>'' @ ev))"

text \<open>Lines 333-340.\<close>

definition load_initial_data :: "options \<Rightarrow> string list \<Rightarrow> event list" where
  "load_initial_data opts app_labels =
     (if opt_load_initial_data opts then map Call_loaddata app_labels else [])"

text \<open>
  \<open>sync_apps(self, connection, app_labels)\<close>. The connection is \<open>env\<close> together with the
  table names \<open>db\<close> of the database; the result is the returned \<open>created_models\<close> or the
  exception, the table names afterwards, and the events. Both \<open>finally\<close> clauses close their
  cursor on either path.
\<close>

definition sync_apps ::
  "env \<Rightarrow> options \<Rightarrow> string set \<Rightarrow> string list \<Rightarrow> (error + model set) \<times> string set \<times> event list" where
  "sync_apps env opts db app_labels =
     (let tables = db;
          mf = manifest env tables app_labels;
          create_models = set (chain_values mf);
          ev1 = [Cursor_open, Table_names, Pre_migrate_signal create_models]
      in case create_tables env opts db mf of
           (Some e, st, ev2) \<Rightarrow> (Inl e, db_tables st, ev1 @ ev2 @ [Cursor_close])
         | (None, st, ev2) \<Rightarrow>
             (case install_custom_sql env opts (created_models st) mf of
                (Some e, ev3) \<Rightarrow>
                  (Inl e, db_tables st,
                   ev1 @ ev2 @ [Cursor_close] @ [Cursor_open] @ ev3 @ [Cursor_close])
              | (None, ev3) \<Rightarrow>
                  (Inr (created_models st), db_tables st,
                   ev1 @ ev2 @ [Cursor_close] @ [Cursor_open] @ ev3 @ [Cursor_close]
                   @ load_initial_data opts app_labels)))"

subsection \<open>handle: conflicts and targets (lines 87-136)\<close>

text \<open>The message of lines 91-98.\<close>

definition conflict_entry :: "string \<times> string list \<Rightarrow> string" where
  "conflict_entry item = (case item of (app, names) \<Rightarrow> join '', '' names @ '' in '' @ app)"

definition conflict_message :: "(string \<times> string list) list \<Rightarrow> string" where
  "conflict_message cs =
     ''Conflicting migrations detected ('' @ join ''; '' (map conflict_entry cs)
       @ '').\<newline>To fix them run '' @ quoted ''python manage.py makemigrations --merge''"

definition no_migrations_error :: "string \<Rightarrow> error" where
  "no_migrations_error app_label =
     CommandError (''App '' @ quoted app_label
       @ '' does not have migrations (you cannot selectively sync unmigrated apps)'')"

definition ambiguous_error :: "string \<Rightarrow> string \<Rightarrow> error" where
  "ambiguous_error migration_name app_label =
     CommandError (''More than one migration matches '' @ quoted migration_name @ '' in app ''
       @ quoted app_label @ ''. Please be more specific.'')"

definition unknown_error :: "string \<Rightarrow> string \<Rightarrow> error" where
  "unknown_error migration_name app_label =
     CommandError (''Cannot find a migration matching '' @ quoted migration_name
       @ '' from app '' @ quoted app_label @ ''.'')"

text \<open>
  Modelled from the spec: \<open>executor.loader.get_migration_by_prefix\<close> (the loader is not under
  src/). Section 6 has \<open>resolve_by_prefix(component, prefix) -> Unit | raises AmbiguousUnit |
  raises UnknownUnit\<close>, and section 4.1 resolves the name "as a unique prefix among that
  component's Unit names", failing with AmbiguousUnit "if more than one Unit matches the
  prefix" and with UnknownUnit "if none match".
\<close>

definition matching_migrations :: "env \<Rightarrow> string \<Rightarrow> string \<Rightarrow> migration_key list" where
  "matching_migrations env app_label name_prefix =
     filter (\<lambda>key. fst key = app_label \<and> prefix name_prefix (snd key)) (disk_migrations env)"

definition get_migration_by_prefix :: "env \<Rightarrow> string \<Rightarrow> string \<Rightarrow> lookup_error + migration_key" where
  "get_migration_by_prefix env app_label name_prefix =
     (case matching_migrations env app_label name_prefix of
        [] \<Rightarrow> Inl KeyError
      | [key] \<Rightarrow> Inr key
      | _ # _ # _ \<Rightarrow> Inl AmbiguityError)"

definition as_target :: "migration_key \<Rightarrow> target" where
  "as_target key = (fst key, Some (snd key))"

text \<open>
  Lines 100-136. The result is \<open>(targets, run_syncdb, target_app_labels_only)\<close> or the
  \<open>CommandError\<close> raised.
\<close>

definition resolve_targets :: "env \<Rightarrow> options \<Rightarrow> (error + target list \<times> bool \<times> bool) \<times> event list" where
  "resolve_targets env opts =
     (let app_label = arg (opt_app_label opts);
          migration_name = arg (opt_migration_name opts)
      in if app_label \<noteq> [] \<and> migration_name \<noteq> [] then
           if app_label \<notin> migrated_apps env then (Inl (no_migrations_error app_label), [])
           else if migration_name = ''zero'' then (Inr ([(app_label, None)], False, False), [])
           else
             (case get_migration_by_prefix env app_label migration_name of
                Inl AmbiguityError \<Rightarrow>
                  (Inl (ambiguous_error migration_name app_label),
                   [Get_migration_by_prefix app_label migration_name])
              | Inl KeyError \<Rightarrow>
                  (Inl (unknown_error migration_name app_label),
                   [Get_migration_by_prefix app_label migration_name])
              | Inr migration \<Rightarrow>
                  (Inr ([(app_label, Some (snd migration))], False, False),
                   [Get_migration_by_prefix app_label migration_name]))
         else if app_label \<noteq> [] then
           if app_label \<notin> migrated_apps env then (Inl (no_migrations_error app_label), [])
           else
             (Inr (map as_target (filter (\<lambda>key. fst key = app_label) (leaf_nodes env)),
                   False, True),
              [Leaf_nodes])
         else (Inr (map as_target (leaf_nodes env), True, True), [Leaf_nodes]))"

subsection \<open>handle: the rest (lines 138-215)\<close>

text \<open>Lines 140-162.\<close>

definition print_info ::
  "env \<Rightarrow> options \<Rightarrow> target list \<Rightarrow> bool \<Rightarrow> bool \<Rightarrow> error option \<times> event list" where
  "print_info env opts targets run_syncdb target_app_labels_only =
     (if opt_verbosity opts \<ge> 1 then
        let ev = [Stdout ''Operations to perform:'']
                 @ (if run_syncdb \<and> unmigrated_apps env \<noteq> []
                    then [Stdout (''  Synchronize unmigrated apps: ''
                                  @ join '', '' (unmigrated_apps env))]
                    else [])
        in if target_app_labels_only then
             (let apps = join '', '' (set_iteration env (map fst targets))
              in (None, ev @ [Stdout (''  Apply all migrations: ''
                                       @ (if apps \<noteq> [] then apps else ''(none)''))]))
           else
             (case targets of
                [] \<Rightarrow> (Some IndexError, ev)
              | (app, None) # _ \<Rightarrow> (None, ev @ [Stdout (''  Unapply all migrations: '' @ app)])
              | (app, Some n) # _ \<Rightarrow>
                  (None, ev @ [Stdout (''  Target specific migration: '' @ n @ '', from '' @ app)]))
      else (None, []))"

text \<open>Lines 168-174.\<close>

definition run_syncdb_phase ::
  "env \<Rightarrow> options \<Rightarrow> bool \<Rightarrow> string set \<Rightarrow> (error + model set) \<times> string set \<times> event list" where
  "run_syncdb_phase env opts run_syncdb db =
     (if run_syncdb \<and> unmigrated_apps env \<noteq> [] then
        (case sync_apps env opts db (unmigrated_apps env) of
           (r, db', ev) \<Rightarrow> (r, db', say opts 1 ''Synchronizing apps without migrations:'' @ ev))
      else (Inr {}, db, [Pre_migrate_signal {}]))"

definition changes_notice :: "event list" where
  "changes_notice =
     [Stdout (''  Your models have changes that are not yet reflected ''
              @ ''in a migration, and so won'' @ [CHR 0x27] @ ''t be applied.''),
      Stdout (''  Run '' @ quoted ''manage.py makemigrations'' @ '' to make new ''
              @ ''migrations, and then re-run '' @ quoted ''manage.py migrate'' @ '' to ''
              @ ''apply them.'')]"

text \<open>Lines 188-211.\<close>

definition run_migrations ::
  "env \<Rightarrow> options \<Rightarrow> target list \<Rightarrow> plan \<Rightarrow> error option \<times> event list" where
  "run_migrations env opts targets pl =
     (let ev = say opts 1 ''Running migrations:''
      in if pl = [] then
           (if opt_verbosity opts \<ge> 1 then
              (None, ev @ [Stdout ''  No migrations to apply.'', Autodetector_changes]
                     @ (if changes env \<noteq> [] then changes_notice else []))
            else (None, ev))
         else
           (case migrate_error env of
              Some e \<Rightarrow> (Some (DatabaseError e), ev @ [Executor_migrate targets pl (opt_fake opts)])
            | None \<Rightarrow> (None, ev @ [Executor_migrate targets pl (opt_fake opts)])))"

text \<open>
  \<open>handle(self, *args, **options)\<close>: the value returned or the exception raised, the table
  names of the database afterwards, and the events in order. Building the executor (line 85)
  is the event \<open>Migration_executor\<close> and leaves the table names \<open>executor_tables env db\<close>. What
  \<open>prepare_database\<close>, \<open>executor.migrate\<close> and the \<open>flush\<close> command do to the database is
  theirs and is not followed here.
\<close>

definition handle :: "env \<Rightarrow> options \<Rightarrow> string set \<Rightarrow> (error + retval) \<times> string set \<times> event list" where
  "handle env opts db =
     (let ev0 = map (\<lambda>ac. Import_module (name ac)) (filter management_submodule (app_configs env))
      in if opt_list opts then
           (Inr ReturnShowmigrations, db,
            ev0 @ [Warn (''The '' @ quoted ''migrate --list'' @ '' command is deprecated. Use ''
                         @ quoted ''showmigrations'' @ '' instead.''),
                   Call_showmigrations
                     (if arg (opt_app_label opts) \<noteq> [] then Some [arg (opt_app_label opts)]
                      else None)])
         else
           let ev1 = ev0 @ [Prepare_database, Migration_executor, Detect_conflicts];
               db1 = executor_tables env db
           in if conflicts env \<noteq> [] then
                (Inl (CommandError (conflict_message (conflicts env))), db1, ev1)
              else
                (case resolve_targets env opts of
                   (Inl e, ev2) \<Rightarrow> (Inl e, db1, ev1 @ ev2)
                 | (Inr (targets, run_syncdb, target_app_labels_only), ev2) \<Rightarrow>
                     let pl = migration_plan env targets;
                         ev3 = ev1 @ ev2 @ [Migration_plan targets]
                     in (case print_info env opts targets run_syncdb target_app_labels_only of
                           (Some e, ev4) \<Rightarrow> (Inl e, db1, ev3 @ ev4)
                         | (None, ev4) \<Rightarrow>
                             (case run_syncdb_phase env opts run_syncdb db1 of
                                (Inl e, db', ev5) \<Rightarrow> (Inl e, db', ev3 @ ev4 @ ev5)
                              | (Inr created, db', ev5) \<Rightarrow>
                                  let ev6 = (if opt_test_flush opts then [Call_flush] else [])
                                  in (case run_migrations env opts targets pl of
                                        (Some e, ev7) \<Rightarrow>
                                          (Inl e, db', ev3 @ ev4 @ ev5 @ ev6 @ ev7)
                                      | (None, ev7) \<Rightarrow>
                                          (Inr ReturnNone, db',
                                           ev3 @ ev4 @ ev5 @ ev6 @ ev7
                                           @ [Post_migrate_signal created]))))))"

subsection \<open>Reading a list of events\<close>

definition created_of :: "event list \<Rightarrow> model list" where
  "created_of ev = concat (map (\<lambda>e. case e of Create_model m \<Rightarrow> [m] | _ \<Rightarrow> []) ev)"

definition deferred_of :: "event list \<Rightarrow> string list" where
  "deferred_of ev = concat (map (\<lambda>e. case e of Execute_deferred s \<Rightarrow> [s] | _ \<Rightarrow> []) ev)"

definition editor_exits :: "event list \<Rightarrow> string list list" where
  "editor_exits ev = concat (map (\<lambda>e. case e of Schema_editor_exit b \<Rightarrow> [b] | _ \<Rightarrow> []) ev)"

definition stderr_of :: "event list \<Rightarrow> string list" where
  "stderr_of ev = concat (map (\<lambda>e. case e of Stderr s \<Rightarrow> [s] | _ \<Rightarrow> []) ev)"

definition stdout_of :: "event list \<Rightarrow> string list" where
  "stdout_of ev = concat (map (\<lambda>e. case e of Stdout s \<Rightarrow> [s] | _ \<Rightarrow> []) ev)"

definition pre_signals :: "event list \<Rightarrow> model set list" where
  "pre_signals ev = concat (map (\<lambda>e. case e of Pre_migrate_signal ms \<Rightarrow> [ms] | _ \<Rightarrow> []) ev)"

definition post_signals :: "event list \<Rightarrow> model set list" where
  "post_signals ev = concat (map (\<lambda>e. case e of Post_migrate_signal ms \<Rightarrow> [ms] | _ \<Rightarrow> []) ev)"

text \<open>Table creation and deferred statements: the DDL of the creation phase.\<close>

definition is_schema :: "event \<Rightarrow> bool" where
  "is_schema e = (case e of Create_model _ \<Rightarrow> True | Execute_deferred _ \<Rightarrow> True | _ \<Rightarrow> False)"

text \<open>
  The calls by which the command itself changes the schema: table creation, deferred and
  custom SQL, and the executor's \<open>migrate\<close>. (\<open>Prepare_database\<close> and \<open>Migration_executor\<close>
  are calls whose effect on the schema is the collaborator's own.)
\<close>

definition is_ddl :: "event \<Rightarrow> bool" where
  "is_ddl e =
     (case e of
        Create_model _ \<Rightarrow> True
      | Execute_deferred _ \<Rightarrow> True
      | Execute_custom _ \<Rightarrow> True
      | Executor_migrate _ _ _ \<Rightarrow> True
      | _ \<Rightarrow> False)"

text \<open>The queries that turn the request into targets and a plan.\<close>

definition is_resolution :: "event \<Rightarrow> bool" where
  "is_resolution e =
     (case e of
        Get_migration_by_prefix _ _ \<Rightarrow> True
      | Leaf_nodes \<Rightarrow> True
      | Migration_plan _ \<Rightarrow> True
      | _ \<Rightarrow> False)"

text \<open>The kinds of event the creation loop makes, and those the custom-SQL loop makes.\<close>

definition loop_event :: "event \<Rightarrow> bool" where
  "loop_event e =
     (case e of
        Stdout _ \<Rightarrow> True
      | Schema_editor_enter \<Rightarrow> True
      | Schema_editor_exit _ \<Rightarrow> True
      | Schema_editor_abort \<Rightarrow> True
      | Create_model _ \<Rightarrow> True
      | _ \<Rightarrow> False)"

definition custom_event :: "event \<Rightarrow> bool" where
  "custom_event e =
     (case e of
        Stdout _ \<Rightarrow> True
      | Stderr _ \<Rightarrow> True
      | Print_exc \<Rightarrow> True
      | Atomic_custom_enter \<Rightarrow> True
      | Atomic_custom_commit \<Rightarrow> True
      | Atomic_custom_rollback \<Rightarrow> True
      | Execute_custom _ \<Rightarrow> True
      | _ \<Rightarrow> False)"

text \<open>
  The custom-SQL transactions of a list of events: for each the statements executed inside it,
  in order, and whether it was committed. \<open>None\<close> when a statement is executed outside a
  transaction, a transaction is opened inside another, or one is left open. The first
  argument is the transaction being read, if any.
\<close>

fun transactions :: "string list option \<Rightarrow> event list \<Rightarrow> (string list \<times> bool) list option" where
  "transactions cur [] = (case cur of None \<Rightarrow> Some [] | Some b \<Rightarrow> None)"
| "transactions cur (e # ev) =
     (case e of
        Atomic_custom_enter \<Rightarrow>
          (case cur of None \<Rightarrow> transactions (Some []) ev | Some b \<Rightarrow> None)
      | Execute_custom s \<Rightarrow>
          (case cur of None \<Rightarrow> None | Some b \<Rightarrow> transactions (Some (b @ [s])) ev)
      | Atomic_custom_commit \<Rightarrow>
          (case cur of
             None \<Rightarrow> None
           | Some b \<Rightarrow> map_option (\<lambda>ts. (b, True) # ts) (transactions None ev))
      | Atomic_custom_rollback \<Rightarrow>
          (case cur of
             None \<Rightarrow> None
           | Some b \<Rightarrow> map_option (\<lambda>ts. (b, False) # ts) (transactions None ev))
      | _ \<Rightarrow> transactions cur ev)"

text \<open>
  What executing a list of statements in one transaction comes to: the statements up to and
  including the first that raises, and whether none raised; and the error of the first that
  raises.
\<close>

definition attempted :: "env \<Rightarrow> string list \<Rightarrow> string list \<times> bool" where
  "attempted env ss =
     (takeWhile (\<lambda>s. execute_error env s = None) ss
        @ take 1 (dropWhile (\<lambda>s. execute_error env s = None) ss),
      dropWhile (\<lambda>s. execute_error env s = None) ss = [])"

definition first_error :: "env \<Rightarrow> string list \<Rightarrow> string option" where
  "first_error env ss =
     (case dropWhile (\<lambda>s. execute_error env s = None) ss of [] \<Rightarrow> None | s # _ \<Rightarrow> execute_error env s)"

text \<open>The pairs \<open>(app_name, model)\<close> in the order the loops over the manifest visit them.\<close>

definition manifest_items :: "(string \<times> model list) list \<Rightarrow> (string \<times> model) list" where
  "manifest_items mf = concat (map (\<lambda>(app_name, model_list). map (Pair app_name) model_list) mf)"

text \<open>
  The two loops of lines 303-304 as one loop over the visited pairs; \<open>install_manifest\<close> is
  shown below to do the same.
\<close>

fun install_items ::
  "env \<Rightarrow> options \<Rightarrow> model set \<Rightarrow> (string \<times> model) list \<Rightarrow> error option \<times> event list" where
  "install_items env opts created [] = (None, [])"
| "install_items env opts created ((app_name, m) # rest) =
     (case install_custom_sql_model env opts created app_name m of
        (Some e, ev) \<Rightarrow> (Some e, ev)
      | (None, ev) \<Rightarrow>
          (case install_items env opts created rest of
             (r, ev') \<Rightarrow> (r, ev @ ev')))"

text \<open>
  The custom-SQL loops call \<open>custom_sql_for_model\<close> for the visited pairs whose model was
  created, in order, until it raises. \<open>served_items\<close> are the pairs before that,
  \<open>custom_sql_items\<close> those of them that have statements, \<open>statements\<close> what was fetched for a
  model, and \<open>fetch_error\<close> the exception that ends the loops, if any.
\<close>

definition statements :: "env \<Rightarrow> model \<Rightarrow> string list" where
  "statements env m = (case custom_sql_for_model env m of Inl e \<Rightarrow> [] | Inr custom_sql \<Rightarrow> custom_sql)"

definition fetched :: "env \<Rightarrow> string \<times> model \<Rightarrow> bool" where
  "fetched env item = (case custom_sql_for_model env (snd item) of Inl e \<Rightarrow> False | Inr custom_sql \<Rightarrow> True)"

definition created_items ::
  "model set \<Rightarrow> (string \<times> model list) list \<Rightarrow> (string \<times> model) list" where
  "created_items created mf = filter (\<lambda>item. snd item \<in> created) (manifest_items mf)"

definition served_items ::
  "env \<Rightarrow> model set \<Rightarrow> (string \<times> model list) list \<Rightarrow> (string \<times> model) list" where
  "served_items env created mf = takeWhile (fetched env) (created_items created mf)"

definition custom_sql_items ::
  "env \<Rightarrow> model set \<Rightarrow> (string \<times> model list) list \<Rightarrow> (string \<times> model) list" where
  "custom_sql_items env created mf =
     filter (\<lambda>item. statements env (snd item) \<noteq> []) (served_items env created mf)"

definition fetch_error ::
  "env \<Rightarrow> model set \<Rightarrow> (string \<times> model list) list \<Rightarrow> error option" where
  "fetch_error env created mf =
     (case dropWhile (fetched env) (created_items created mf) of
        [] \<Rightarrow> None
      | item # _ \<Rightarrow>
          (case custom_sql_for_model env (snd item) of
             Inl e \<Rightarrow> Some (CustomSqlError e)
           | Inr custom_sql \<Rightarrow> None))"

text \<open>The models of a manifest that the creation loop does not skip (line 275).\<close>

definition creatable :: "(string \<times> model list) list \<Rightarrow> model list" where
  "creatable mf = filter (\<lambda>m. \<not> (proxy m \<or> \<not> managed m)) (chain_values mf)"

subsection \<open>A small project\<close>

text \<open>
  An app \<open>blog\<close> without migrations, owning two managed models, an unmanaged one and a proxy;
  an app \<open>shop\<close> with the migrations \<open>0001_initial\<close>, \<open>0002_add_author\<close> and \<open>0002_add_price\<close>,
  each depending on the one before, so that the last is the only leaf. Building the executor
  creates the table \<open>django_migrations\<close> where it is missing. The custom SQL of \<open>Post\<close> fails
  at its first statement.
\<close>

definition post :: model where
  "post = \<lparr>object_name = ''Post'', db_table = ''blog_post'', proxy = False, managed = True,
           auto_created = None\<rparr>"

definition tag :: model where
  "tag = \<lparr>object_name = ''Tag'', db_table = ''blog_tag'', proxy = False, managed = True,
          auto_created = None\<rparr>"

definition legacy :: model where
  "legacy = \<lparr>object_name = ''Legacy'', db_table = ''legacy_rows'', proxy = False,
             managed = False, auto_created = None\<rparr>"

definition post_proxy :: model where
  "post_proxy = \<lparr>object_name = ''PostProxy'', db_table = ''blog_post'', proxy = True,
                 managed = True, auto_created = None\<rparr>"

definition blog :: app_config where
  "blog = \<lparr>label = ''blog'', name = ''site.blog'', management_submodule = True,
           models_module = True, migratable_models = [post, tag, legacy, post_proxy]\<rparr>"

definition shop :: app_config where
  "shop = \<lparr>label = ''shop'', name = ''site.shop'', management_submodule = False,
           models_module = True, migratable_models = []\<rparr>"

definition project :: env where
  "project =
     \<lparr>app_configs = [blog, shop],
      conflicts = [],
      migrated_apps = {''shop''},
      unmigrated_apps = [''blog''],
      disk_migrations = [(''shop'', ''0001_initial''), (''shop'', ''0002_add_author''),
                         (''shop'', ''0002_add_price'')],
      executor_tables = insert ''django_migrations'',
      leaf_nodes = [(''shop'', ''0002_add_price'')],
      set_iteration = remdups,
      migration_plan = (\<lambda>targets. []),
      migrate_error = None,
      changes = [''shop''],
      table_name_converter = (\<lambda>s. s),
      can_rollback_ddl = True,
      create_model_error = (\<lambda>m. None),
      editor_deferred_sql = (\<lambda>m. [''ALTER TABLE '' @ db_table m @ '' ADD CONSTRAINT fk'']),
      execute_error = (\<lambda>s. if s = ''INSERT INTO blog_post'' then Some ''syntax error'' else None),
      custom_sql_for_model =
        (\<lambda>m. if db_table m = ''blog_post'' then Inr [''INSERT INTO blog_post'', ''SELECT 1'']
             else if db_table m = ''blog_tag'' then Inr [''INSERT INTO blog_tag'']
             else Inr [])\<rparr>"

text \<open>
  The same project where \<open>0002_add_author\<close> and \<open>0002_add_price\<close> both depend on
  \<open>0001_initial\<close>: two leaves, in conflict.
\<close>

definition conflicting_project :: env where
  "conflicting_project =
     project\<lparr>conflicts := [(''shop'', [''0002_add_author'', ''0002_add_price''])],
            leaf_nodes := [(''shop'', ''0002_add_author''), (''shop'', ''0002_add_price'')]\<rparr>"


text \<open>
  The same project on a backend that cannot roll DDL back, where creating the table of \<open>Tag\<close>
  fails.
\<close>

definition failing_project :: env where
  "failing_project =
     project\<lparr>can_rollback_ddl := False,
             create_model_error :=
               (\<lambda>m. if db_table m = ''blog_tag'' then Some ''disk full'' else None)\<rparr>"

definition default_options :: options where
  "default_options =
     \<lparr>opt_verbosity = 1, opt_interactive = True, opt_traceback = False,
      opt_load_initial_data = True, opt_database = ''default'', opt_fake = False,
      opt_list = False, opt_test_flush = False, opt_app_label = None,
      opt_migration_name = None\<rparr>"

subsection \<open>ordered_dict\<close>

lemma update_fresh: "k \<notin> fst ` set d \<Longrightarrow> AList.update k v d = d @ [(k, v)]"
  by (induction d) auto

lemma foldl_update_distinct:
  "distinct (map fst (acc @ ps)) \<Longrightarrow>
   foldl (\<lambda>d (k, v). AList.update k v d) acc ps = acc @ ps"
proof (induction ps arbitrary: acc)
  case Nil
  then show ?case by simp
next
  case (Cons p ps)
  obtain k v where p: "p = (k, v)" by (cases p)
  from Cons.prems p have fresh: "k \<notin> fst ` set acc" by auto
  from Cons.prems p have "distinct (map fst ((acc @ [(k, v)]) @ ps))" by auto
  from Cons.IH[OF this] show ?case by (simp add: p update_fresh[OF fresh])
qed

lemma ordered_dict_distinct: "distinct (map fst ps) \<Longrightarrow> ordered_dict ps = ps"
  using foldl_update_distinct[of "[]" ps] by (simp add: ordered_dict_def)

lemma update_map_values:
  "AList.update k (f v) (map (\<lambda>(a, x). (a, f x)) d) = map (\<lambda>(a, x). (a, f x)) (AList.update k v d)"
  by (induction d) auto

lemma foldl_update_map_values:
  "foldl (\<lambda>d (k, v). AList.update k v d) (map (\<lambda>(a, x). (a, f x)) acc) (map (\<lambda>(a, x). (a, f x)) ps)
   = map (\<lambda>(a, x). (a, f x)) (foldl (\<lambda>d (k, v). AList.update k v d) acc ps)"
proof (induction ps arbitrary: acc)
  case Nil
  then show ?case by simp
next
  case (Cons p ps)
  obtain k v where p: "p = (k, v)" by (cases p)
  show ?case using Cons.IH[of "AList.update k v acc"] by (simp add: p update_map_values)
qed

lemma ordered_dict_map_values:
  "ordered_dict (map (\<lambda>(a, x). (a, f x)) ps) = map (\<lambda>(a, x). (a, f x)) (ordered_dict ps)"
  using foldl_update_map_values[of f "[]" ps] by (simp add: ordered_dict_def)

lemma manifest_map:
  "manifest env tables app_labels =
     map (\<lambda>(a, ms). (a, filter (model_installed env tables) ms))
       (ordered_dict (all_models env app_labels))"
  by (simp add: manifest_def ordered_dict_map_values)

lemma chain_values_manifest:
  "chain_values (manifest env tables app_labels) =
     filter (model_installed env tables) (chain_values (ordered_dict (all_models env app_labels)))"
  by (simp add: manifest_map chain_values_def filter_concat comp_def case_prod_unfold)

subsection \<open>The creation loop\<close>

lemma creatable_Nil: "creatable [] = []"
  by (simp add: creatable_def chain_values_def)

lemma creatable_Cons:
  "creatable ((a, ms) # rest) = filter (\<lambda>m. \<not> (proxy m \<or> \<not> managed m)) ms @ creatable rest"
  by (simp add: creatable_def chain_values_def)

text \<open>A pass that returns: what it did to the state and which events it made.\<close>

lemma create_model_iter_ok:
  assumes "create_model_iter env opts a m st = (None, st', ev)"
  shows "deferred_sql st' = deferred_sql st @ concat (map (editor_deferred_sql env) (filter (\<lambda>m. \<not> (proxy m \<or> \<not> managed m)) [m]))"
    and "created_models st' = created_models st \<union> set (filter (\<lambda>m. \<not> (proxy m \<or> \<not> managed m)) [m])"
    and "db_tables st' = db_tables st \<union> (\<lambda>m. table_name_converter env (db_table m)) ` set (filter (\<lambda>m. \<not> (proxy m \<or> \<not> managed m)) [m])"
    and "created_of ev = filter (\<lambda>m. \<not> (proxy m \<or> \<not> managed m)) [m]"
    and "editor_exits ev = map (\<lambda>m. []) (filter (\<lambda>m. \<not> (proxy m \<or> \<not> managed m)) [m])"
  using assms
  by (auto simp add: create_model_iter_def Let_def say_def created_of_def editor_exits_def
        table_created_def split: if_splits option.splits)

lemma create_model_list_ok:
  assumes "create_model_list env opts a ms st = (None, st', ev)"
  shows "deferred_sql st' = deferred_sql st @ concat (map (editor_deferred_sql env) (filter (\<lambda>m. \<not> (proxy m \<or> \<not> managed m)) ms))
       \<and> created_models st' = created_models st \<union> set (filter (\<lambda>m. \<not> (proxy m \<or> \<not> managed m)) ms)
       \<and> db_tables st' = db_tables st \<union> (\<lambda>m. table_name_converter env (db_table m)) ` set (filter (\<lambda>m. \<not> (proxy m \<or> \<not> managed m)) ms)
       \<and> created_of ev = filter (\<lambda>m. \<not> (proxy m \<or> \<not> managed m)) ms
       \<and> editor_exits ev = map (\<lambda>m. []) (filter (\<lambda>m. \<not> (proxy m \<or> \<not> managed m)) ms)"
  using assms
proof (induction ms arbitrary: st st' ev)
  case Nil
  then show ?case by (simp add: created_of_def editor_exits_def)
next
  case (Cons m ms)
  from Cons.prems obtain st1 ev1 ev2 where
    one: "create_model_iter env opts a m st = (None, st1, ev1)" and
    rest: "create_model_list env opts a ms st1 = (None, st', ev2)" and
    ev: "ev = ev1 @ ev2"
    by (auto split: prod.splits option.splits)
  note h = create_model_iter_ok[OF one] Cons.IH[OF rest]
  have app: "created_of ev = created_of ev1 @ created_of ev2"
            "editor_exits ev = editor_exits ev1 @ editor_exits ev2"
    by (simp_all add: ev created_of_def editor_exits_def)
  show ?case
    unfolding app using h by (auto simp add: image_Un)
qed

lemma create_manifest_ok:
  assumes "create_manifest env opts mf st = (None, st', ev)"
  shows "deferred_sql st' = deferred_sql st @ concat (map (editor_deferred_sql env) (creatable mf))
       \<and> created_models st' = created_models st \<union> set (creatable mf)
       \<and> db_tables st' = db_tables st \<union> (\<lambda>m. table_name_converter env (db_table m)) ` set (creatable mf)
       \<and> created_of ev = creatable mf
       \<and> editor_exits ev = map (\<lambda>m. []) (creatable mf)"
  using assms
proof (induction mf arbitrary: st st' ev)
  case Nil
  then show ?case by (simp add: created_of_def editor_exits_def creatable_Nil)
next
  case (Cons p mf)
  obtain a ms where p: "p = (a, ms)" by (cases p)
  from Cons.prems p obtain st1 ev1 ev2 where
    one: "create_model_list env opts a ms st = (None, st1, ev1)" and
    rest: "create_manifest env opts mf st1 = (None, st', ev2)" and
    ev: "ev = ev1 @ ev2"
    by (auto split: prod.splits option.splits)
  note h = create_model_list_ok[OF one] Cons.IH[OF rest]
  have app: "created_of ev = created_of ev1 @ created_of ev2"
            "editor_exits ev = editor_exits ev1 @ editor_exits ev2"
    by (simp_all add: ev created_of_def editor_exits_def)
  show ?case
    unfolding app p creatable_Cons using h by (auto simp add: image_Un)
qed

subsection \<open>Projections of event lists\<close>

lemma created_of_simps [simp]:
  "created_of [] = []"
  "created_of (e # ev) = (case e of Create_model m \<Rightarrow> [m] | _ \<Rightarrow> []) @ created_of ev"
  "created_of (ev @ ev') = created_of ev @ created_of ev'"
  by (simp_all add: created_of_def)

lemma deferred_of_simps [simp]:
  "deferred_of [] = []"
  "deferred_of (e # ev) = (case e of Execute_deferred s \<Rightarrow> [s] | _ \<Rightarrow> []) @ deferred_of ev"
  "deferred_of (ev @ ev') = deferred_of ev @ deferred_of ev'"
  by (simp_all add: deferred_of_def)

lemma editor_exits_simps [simp]:
  "editor_exits [] = []"
  "editor_exits (e # ev) = (case e of Schema_editor_exit b \<Rightarrow> [b] | _ \<Rightarrow> []) @ editor_exits ev"
  "editor_exits (ev @ ev') = editor_exits ev @ editor_exits ev'"
  by (simp_all add: editor_exits_def)

lemma stderr_of_simps [simp]:
  "stderr_of [] = []"
  "stderr_of (e # ev) = (case e of Stderr s \<Rightarrow> [s] | _ \<Rightarrow> []) @ stderr_of ev"
  "stderr_of (ev @ ev') = stderr_of ev @ stderr_of ev'"
  by (simp_all add: stderr_of_def)

lemma stdout_of_simps [simp]:
  "stdout_of [] = []"
  "stdout_of (e # ev) = (case e of Stdout s \<Rightarrow> [s] | _ \<Rightarrow> []) @ stdout_of ev"
  "stdout_of (ev @ ev') = stdout_of ev @ stdout_of ev'"
  by (simp_all add: stdout_of_def)

lemma pre_signals_simps [simp]:
  "pre_signals [] = []"
  "pre_signals (e # ev) = (case e of Pre_migrate_signal ms \<Rightarrow> [ms] | _ \<Rightarrow> []) @ pre_signals ev"
  "pre_signals (ev @ ev') = pre_signals ev @ pre_signals ev'"
  by (simp_all add: pre_signals_def)

lemma post_signals_simps [simp]:
  "post_signals [] = []"
  "post_signals (e # ev) = (case e of Post_migrate_signal ms \<Rightarrow> [ms] | _ \<Rightarrow> []) @ post_signals ev"
  "post_signals (ev @ ev') = post_signals ev @ post_signals ev'"
  by (simp_all add: post_signals_def)

lemma say_projections [simp]:
  "created_of (say opts k msg) = []"
  "deferred_of (say opts k msg) = []"
  "editor_exits (say opts k msg) = []"
  "stderr_of (say opts k msg) = []"
  "pre_signals (say opts k msg) = []"
  "post_signals (say opts k msg) = []"
  "filter is_schema (say opts k msg) = []"
  "filter is_ddl (say opts k msg) = []"
  "list_all loop_event (say opts k msg)"
  "list_all custom_event (say opts k msg)"
  "transactions cur (say opts k msg @ ev) = transactions cur ev"
  by (simp_all add: say_def is_schema_def is_ddl_def loop_event_def custom_event_def)

lemma loop_event_projections:
  "list_all loop_event ev \<Longrightarrow>
     deferred_of ev = [] \<and> pre_signals ev = [] \<and> post_signals ev = [] \<and> stderr_of ev = []
     \<and> filter is_schema ev = map Create_model (created_of ev)
     \<and> transactions cur (ev @ rest) = transactions cur rest"
  by (induction ev) (auto simp add: loop_event_def is_schema_def split: event.splits)

lemma custom_event_projections:
  "list_all custom_event ev \<Longrightarrow>
     created_of ev = [] \<and> deferred_of ev = [] \<and> editor_exits ev = []
     \<and> pre_signals ev = [] \<and> post_signals ev = [] \<and> filter is_schema ev = []"
  by (induction ev) (auto simp add: custom_event_def is_schema_def split: event.splits)

lemma deferred_events_projections:
  "created_of (map Execute_deferred ss) = [] \<and> deferred_of (map Execute_deferred ss) = ss
   \<and> editor_exits (map Execute_deferred ss) = [] \<and> stderr_of (map Execute_deferred ss) = []
   \<and> pre_signals (map Execute_deferred ss) = [] \<and> post_signals (map Execute_deferred ss) = []
   \<and> filter is_schema (map Execute_deferred ss) = map Execute_deferred ss
   \<and> transactions cur (map Execute_deferred ss @ rest) = transactions cur rest"
  by (induction ss) (auto simp add: is_schema_def)

lemma loaddata_projections:
  "created_of (load_initial_data opts ls) = [] \<and> deferred_of (load_initial_data opts ls) = []
   \<and> editor_exits (load_initial_data opts ls) = [] \<and> stderr_of (load_initial_data opts ls) = []
   \<and> pre_signals (load_initial_data opts ls) = [] \<and> post_signals (load_initial_data opts ls) = []
   \<and> filter is_schema (load_initial_data opts ls) = []
   \<and> transactions None (load_initial_data opts ls) = Some []"
  by (induction ls) (auto simp add: is_schema_def load_initial_data_def)

subsection \<open>The events of the loops\<close>

lemma create_model_iter_events:
  "create_model_iter env opts a m st = (r, st', ev) \<Longrightarrow> list_all loop_event ev"
  by (auto simp add: create_model_iter_def Let_def say_def loop_event_def
        split: if_splits option.splits)

lemma create_model_list_events:
  "create_model_list env opts a ms st = (r, st', ev) \<Longrightarrow> list_all loop_event ev"
proof (induction ms arbitrary: st r st' ev)
  case Nil
  then show ?case by simp
next
  case (Cons m ms)
  then show ?case
    by (auto split: prod.splits option.splits dest: create_model_iter_events)
qed

lemma create_manifest_events:
  "create_manifest env opts mf st = (r, st', ev) \<Longrightarrow> list_all loop_event ev"
proof (induction mf arbitrary: st r st' ev)
  case Nil
  then show ?case by simp
next
  case (Cons p mf)
  then show ?case
    by (cases p) (auto split: prod.splits option.splits dest: create_model_list_events)
qed

lemma run_deferred_attempted:
  "snd (run_deferred env ss) = map Execute_deferred (fst (attempted env ss))
   \<and> (fst (run_deferred env ss) = None \<longleftrightarrow> snd (attempted env ss))"
  by (induction ss) (auto simp add: attempted_def split: option.splits prod.splits)

lemma attempted_prefix: "prefix (fst (attempted env ss)) ss"
  by (induction ss) (auto simp add: attempted_def)

lemma attempted_all: "snd (attempted env ss) \<Longrightarrow> fst (attempted env ss) = ss"
  by (induction ss) (auto simp add: attempted_def split: if_splits)

lemma run_custom_attempted:
  "snd (run_custom env ss) = map Execute_custom (fst (attempted env ss))
   \<and> fst (run_custom env ss) = first_error env ss
   \<and> (fst (run_custom env ss) = None \<longleftrightarrow> snd (attempted env ss))"
  by (induction ss) (auto simp add: attempted_def first_error_def split: option.splits prod.splits)

subsection \<open>The creation phase\<close>

lemma create_tables_cases:
  assumes "create_tables env opts db mf = (r, st, ev)"
  obtains (loop_failed) e st1 evl where
      "create_manifest env opts mf \<lparr>deferred_sql = [], created_models = {}, db_tables = db\<rparr>
         = (Some e, st1, evl)"
      "r = Some e"
      "ev = say opts 1 ''  Creating tables...\<newline>'' @ [Atomic_enter (can_rollback_ddl env)] @ evl
            @ [Atomic_rollback]"
    | (loop_done) st1 evl where
      "create_manifest env opts mf \<lparr>deferred_sql = [], created_models = {}, db_tables = db\<rparr>
         = (None, st1, evl)"
      "ev = say opts 1 ''  Creating tables...\<newline>'' @ [Atomic_enter (can_rollback_ddl env)] @ evl
            @ say opts 1 ''    Running deferred SQL...\<newline>''
            @ map Execute_deferred (fst (attempted env (deferred_sql st1)))
            @ [if r = None then Atomic_commit else Atomic_rollback]"
      "(r = None) = snd (attempted env (deferred_sql st1))"
      "r = None \<longrightarrow> st = st1"
proof (cases "create_manifest env opts mf \<lparr>deferred_sql = [], created_models = {}, db_tables = db\<rparr>")
  case (fields r1 st1 evl)
  show ?thesis
  proof (cases r1)
    case (Some e)
    with fields assms show ?thesis
      by (intro loop_failed[of e st1 evl]) (auto simp add: create_tables_def Let_def)
  next
    case None
    obtain r2 ev2 where rd: "run_deferred env (deferred_sql st1) = (r2, ev2)"
      by (cases "run_deferred env (deferred_sql st1)")
    from run_deferred_attempted[of env "deferred_sql st1"] rd
    have ev2: "ev2 = map Execute_deferred (fst (attempted env (deferred_sql st1)))"
      and r2: "(r2 = None) = snd (attempted env (deferred_sql st1))" by simp_all
    from None fields assms rd ev2 r2 show ?thesis
      by (intro loop_done[of st1 evl]) (auto simp add: create_tables_def Let_def split: option.splits)
  qed
qed

lemma create_tables_events:
  assumes "create_tables env opts db mf = (r, st, ev)"
  shows "filter is_schema ev = map Create_model (created_of ev) @ map Execute_deferred (deferred_of ev)"
    and "prefix (deferred_of ev) (concat (map (editor_deferred_sql env) (created_of ev)))"
    and "pre_signals ev = []" and "post_signals ev = []" and "stderr_of ev = []"
    and "transactions cur (ev @ rest) = transactions cur rest"
proof -
  have "filter is_schema ev = map Create_model (created_of ev) @ map Execute_deferred (deferred_of ev)
      \<and> prefix (deferred_of ev) (concat (map (editor_deferred_sql env) (created_of ev)))
      \<and> pre_signals ev = [] \<and> post_signals ev = [] \<and> stderr_of ev = []
      \<and> transactions cur (ev @ rest) = transactions cur rest"
    using assms
  proof (cases rule: create_tables_cases)
    case (loop_failed e st1 evl)
    from create_manifest_events[OF loop_failed(1)] have le: "list_all loop_event evl" .
    note p = loop_event_projections[OF le]
    show ?thesis
      unfolding loop_failed(3)
      using p[of cur] p[of cur "Atomic_rollback # rest"] by (simp add: is_schema_def)
  next
    case (loop_done st1 evl)
    from create_manifest_events[OF loop_done(1)] have le: "list_all loop_event evl" .
    note p = loop_event_projections[OF le]
    note ok = create_manifest_ok[OF loop_done(1)]
    note d = deferred_events_projections
    let ?ds = "fst (attempted env (deferred_sql st1))"
    have pre: "prefix ?ds (concat (map (editor_deferred_sql env) (created_of evl)))"
      using attempted_prefix[of env "deferred_sql st1"] ok by simp
    have tr: "transactions cur (ev @ rest) = transactions cur rest"
      unfolding loop_done(2)
      using p[of cur] d[of ?ds cur] 
            p[of cur "say opts 1 ''    Running deferred SQL...\<newline>''
            @ map Execute_deferred ?ds
            @ [if r = None then Atomic_commit else Atomic_rollback] @ rest"]
            d[of ?ds cur "[if r = None then Atomic_commit else Atomic_rollback] @ rest"]
      by simp
    show ?thesis
      using tr pre unfolding loop_done(2)
      using p[of cur] d[of ?ds cur] by (simp add: is_schema_def)
  qed
  then show "filter is_schema ev = map Create_model (created_of ev) @ map Execute_deferred (deferred_of ev)"
    and "prefix (deferred_of ev) (concat (map (editor_deferred_sql env) (created_of ev)))"
    and "pre_signals ev = []" and "post_signals ev = []" and "stderr_of ev = []"
    and "transactions cur (ev @ rest) = transactions cur rest"
    by simp_all
qed

lemma create_tables_ok:
  assumes "create_tables env opts db mf = (None, st, ev)"
  shows "created_of ev = creatable mf"
    and "deferred_of ev = concat (map (editor_deferred_sql env) (creatable mf))"
    and "editor_exits ev = map (\<lambda>m. []) (creatable mf)"
    and "created_models st = set (creatable mf)"
    and "db_tables st = db \<union> (\<lambda>m. table_name_converter env (db_table m)) ` set (creatable mf)"
proof -
  have "created_of ev = creatable mf
      \<and> deferred_of ev = concat (map (editor_deferred_sql env) (creatable mf))
      \<and> editor_exits ev = map (\<lambda>m. []) (creatable mf)
      \<and> created_models st = set (creatable mf)
      \<and> db_tables st = db \<union> (\<lambda>m. table_name_converter env (db_table m)) ` set (creatable mf)"
    using assms
  proof (cases rule: create_tables_cases)
    case (loop_failed e st1 evl)
    then show ?thesis by simp
  next
    case (loop_done st1 evl)
    from create_manifest_events[OF loop_done(1)] have le: "list_all loop_event evl" .
    note p = loop_event_projections[OF le]
    note ok = create_manifest_ok[OF loop_done(1)]
    note d = deferred_events_projections
    let ?ds = "fst (attempted env (deferred_sql st1))"
    from loop_done(3) have all: "?ds = deferred_sql st1" by (simp add: attempted_all)
    from loop_done(4) have st: "st = st1" by simp
    show ?thesis
      unfolding loop_done(2) st
      using p[of None] d[of ?ds None] ok all by simp
  qed
  then show "created_of ev = creatable mf"
    and "deferred_of ev = concat (map (editor_deferred_sql env) (creatable mf))"
    and "editor_exits ev = map (\<lambda>m. []) (creatable mf)"
    and "created_models st = set (creatable mf)"
    and "db_tables st = db \<union> (\<lambda>m. table_name_converter env (db_table m)) ` set (creatable mf)"
    by simp_all
qed

subsection \<open>The custom-SQL phase\<close>

lemma transactions_custom_statements:
  "transactions (Some b) (map Execute_custom ss @ rest) = transactions (Some (b @ ss)) rest"
  by (induction ss arbitrary: b) simp_all

lemma stderr_of_custom_statements: "stderr_of (map Execute_custom ss) = []"
  by (induction ss) simp_all

lemma custom_statements_events: "list_all custom_event (map Execute_custom ss)"
  by (induction ss) (simp_all add: custom_event_def)

text \<open>A pass for a model that was created and whose statements could be fetched.\<close>

lemma install_custom_sql_model_served:
  assumes "m \<in> created" and "custom_sql_for_model env m = Inr ss"
  shows "\<exists>ev.
    install_custom_sql_model env opts created a m = (None, ev)
    \<and> list_all custom_event ev
    \<and> (\<forall>rest. transactions None (ev @ rest) =
       (if ss \<noteq> [] then map_option (\<lambda>ts. attempted env ss # ts) (transactions None rest)
        else transactions None rest))
    \<and> stderr_of ev =
       (if ss \<noteq> []
        then (case first_error env ss of None \<Rightarrow> [] | Some e \<Rightarrow> [failed_custom_sql a m e])
        else [])"
proof -
  obtain r evc where rc: "run_custom env ss = (r, evc)"
    by (cases "run_custom env ss")
  have "snd (run_custom env ss) = map Execute_custom (fst (attempted env ss))"
    using run_custom_attempted[of env ss] by blast
  with rc have evc: "evc = map Execute_custom (fst (attempted env ss))" by simp
  have "fst (run_custom env ss) = first_error env ss"
    using run_custom_attempted[of env ss] by blast
  with rc have fe: "first_error env ss = r" by simp
  have "(fst (run_custom env ss) = None) = snd (attempted env ss)"
    using run_custom_attempted[of env ss] by blast
  with rc have r: "(r = None) = snd (attempted env ss)" by simp
  have att: "attempted env ss = (fst (attempted env ss), r = None)"
    using r by (cases "attempted env ss") simp
  obtain ev where ev: "install_custom_sql_model env opts created a m = (None, ev)"
    using assms
    by (cases "install_custom_sql_model env opts created a m")
       (auto simp add: install_custom_sql_model_def split: if_splits)
  have events: "list_all custom_event ev"
    using ev assms rc evc
    by (auto simp add: install_custom_sql_model_def custom_event_def custom_statements_events
          split: if_splits option.splits)
  have trans: "transactions None (ev @ rest) =
       (if ss \<noteq> [] then map_option (\<lambda>ts. attempted env ss # ts) (transactions None rest)
        else transactions None rest)" for rest
  proof (cases r)
    case None
    with att have "attempted env ss = (fst (attempted env ss), True)" by simp
    then show ?thesis
      using ev assms rc evc None
      by (auto simp add: install_custom_sql_model_def transactions_custom_statements
            split: if_splits)
  next
    case (Some e)
    with att have "attempted env ss = (fst (attempted env ss), False)" by simp
    then show ?thesis
      using ev assms rc evc Some
      by (auto simp add: install_custom_sql_model_def transactions_custom_statements
            split: if_splits)
  qed
  have err: "stderr_of ev =
       (if ss \<noteq> []
        then (case first_error env ss of None \<Rightarrow> [] | Some e \<Rightarrow> [failed_custom_sql a m e])
        else [])"
    using ev assms rc evc fe
    by (auto simp add: install_custom_sql_model_def stderr_of_custom_statements
          split: if_splits option.splits)
  from ev events trans err show ?thesis by blast
qed

text \<open>The loops over the manifest are the loop over its pairs.\<close>

lemma install_items_append:
  "install_items env opts created (xs @ ys) =
     (case install_items env opts created xs of
        (Some e, ev) \<Rightarrow> (Some e, ev)
      | (None, ev) \<Rightarrow>
          (case install_items env opts created ys of (r, ev') \<Rightarrow> (r, ev @ ev')))"
  by (induction xs) (auto split: prod.splits option.splits)

lemma install_model_list_items:
  "install_model_list env opts created a ms = install_items env opts created (map (Pair a) ms)"
  by (induction ms) (auto split: prod.splits option.splits)

lemma install_manifest_items:
  "install_manifest env opts created mf = install_items env opts created (manifest_items mf)"
proof (induction mf)
  case Nil
  then show ?case by (simp add: manifest_items_def)
next
  case (Cons p mf)
  obtain a ms where p: "p = (a, ms)" by (cases p)
  have "manifest_items ((a, ms) # mf) = map (Pair a) ms @ manifest_items mf"
    by (simp add: manifest_items_def)
  then show ?case
    using Cons.IH
    by (auto simp add: p install_items_append install_model_list_items
          split: prod.splits option.splits)
qed

lemma cons_append_fun: "(\<lambda>ts. x # xs @ ts) = (@) (x # xs)"
  by (rule ext) simp

text \<open>What the loop over the pairs does, in terms of the pairs.\<close>

lemma install_items_result:
  assumes "install_items env opts created items = (r, ev)"
  shows "list_all custom_event ev
       \<and> r = (case dropWhile (fetched env) (filter (\<lambda>item. snd item \<in> created) items) of
                [] \<Rightarrow> None
              | item # _ \<Rightarrow>
                  (case custom_sql_for_model env (snd item) of
                     Inl e \<Rightarrow> Some (CustomSqlError e)
                   | Inr custom_sql \<Rightarrow> None))
       \<and> (\<forall>rest. transactions None (ev @ rest) =
             map_option
               (\<lambda>ts. map (\<lambda>item. attempted env (statements env (snd item)))
                        (filter (\<lambda>item. statements env (snd item) \<noteq> [])
                           (takeWhile (fetched env)
                              (filter (\<lambda>item. snd item \<in> created) items))) @ ts)
               (transactions None rest))
       \<and> stderr_of ev =
           List.map_filter
             (\<lambda>item. map_option (failed_custom_sql (fst item) (snd item))
                        (first_error env (statements env (snd item))))
             (filter (\<lambda>item. statements env (snd item) \<noteq> [])
                (takeWhile (fetched env) (filter (\<lambda>item. snd item \<in> created) items)))"
  using assms
proof (induction items arbitrary: r ev)
  case Nil
  then show ?case by (simp add: List.map_filter_simps option.map_ident)
next
  case (Cons p items)
  obtain a m where p: "p = (a, m)" by (cases p)
  show ?case
  proof (cases "m \<in> created")
    case False
    then have "install_custom_sql_model env opts created a m = (None, [])"
      by (simp add: install_custom_sql_model_def)
    with Cons.prems p have "install_items env opts created items = (r, ev)"
      by (auto split: prod.splits)
    from Cons.IH[OF this] False show ?thesis by (simp add: p)
  next
    case True
    show ?thesis
    proof (cases "custom_sql_for_model env m")
      case (Inl e)
      with True have "install_custom_sql_model env opts created a m = (Some (CustomSqlError e), [])"
        by (simp add: install_custom_sql_model_def)
      with Cons.prems p have "r = Some (CustomSqlError e)" and "ev = []" by simp_all
      with True Inl show ?thesis
        by (simp add: p fetched_def List.map_filter_simps option.map_ident)
    next
      case (Inr ss)
      from True Inr obtain ev1 where
        one: "install_custom_sql_model env opts created a m = (None, ev1)" and
        ev1: "list_all custom_event ev1" and
        tr1: "\<And>rest. transactions None (ev1 @ rest) =
                (if ss \<noteq> [] then map_option (\<lambda>ts. attempted env ss # ts) (transactions None rest)
                 else transactions None rest)" and
        er1: "stderr_of ev1 =
                (if ss \<noteq> []
                 then (case first_error env ss of None \<Rightarrow> [] | Some e \<Rightarrow> [failed_custom_sql a m e])
                 else [])"
        using install_custom_sql_model_served[OF True Inr, of opts a] by blast
      obtain ev2 where rest: "install_items env opts created items = (r, ev2)"
        and ev: "ev = ev1 @ ev2"
        using Cons.prems p one by (auto split: prod.splits)
      note ih = Cons.IH[OF rest]
      have f: "fetched env (a, m)" "statements env m = ss"
        using Inr by (simp_all add: fetched_def statements_def)
      show ?thesis
        using ih ev1 True f
        by (simp add: p ev tr1 er1 List.map_filter_simps option.map_comp comp_def
              cons_append_fun split: option.splits)
    qed
  qed
qed

lemma install_custom_sql_result:
  assumes "install_custom_sql env opts created mf = (r, ev)"
  shows "list_all custom_event ev"
    and "r = fetch_error env created mf"
    and "transactions None (ev @ rest) =
           map_option
             (\<lambda>ts. map (\<lambda>item. attempted env (statements env (snd item)))
                      (custom_sql_items env created mf) @ ts)
             (transactions None rest)"
    and "stderr_of ev =
           List.map_filter
             (\<lambda>item. map_option (failed_custom_sql (fst item) (snd item))
                        (first_error env (statements env (snd item))))
             (custom_sql_items env created mf)"
proof -
  obtain ev1 where items: "install_items env opts created (manifest_items mf) = (r, ev1)"
    and ev: "ev = say opts 1 ''  Installing custom SQL...\<newline>'' @ ev1"
    using assms
    by (auto simp add: install_custom_sql_def install_manifest_items split: prod.splits)
  note h = install_items_result[OF items]
  from h show "list_all custom_event ev" by (simp add: ev)
  from h show "r = fetch_error env created mf"
    by (simp add: fetch_error_def created_items_def)
  from h have "transactions None (ev1 @ rest) =
           map_option
             (\<lambda>ts. map (\<lambda>item. attempted env (statements env (snd item)))
                      (custom_sql_items env created mf) @ ts)
             (transactions None rest)"
    unfolding custom_sql_items_def served_items_def created_items_def by blast
  then show "transactions None (ev @ rest) =
           map_option
             (\<lambda>ts. map (\<lambda>item. attempted env (statements env (snd item)))
                      (custom_sql_items env created mf) @ ts)
             (transactions None rest)"
    by (simp add: ev)
  from h show "stderr_of ev =
           List.map_filter
             (\<lambda>item. map_option (failed_custom_sql (fst item) (snd item))
                        (first_error env (statements env (snd item))))
             (custom_sql_items env created mf)"
    by (simp add: ev custom_sql_items_def served_items_def created_items_def)
qed

text \<open>With nothing created the loops do nothing.\<close>

lemma install_custom_sql_nothing:
  "install_custom_sql env opts {} mf = (None, say opts 1 ''  Installing custom SQL...\<newline>'')"
proof -
  have "install_items env opts {} items = (None, [])" for items
    by (induction items) (auto simp add: install_custom_sql_model_def)
  then show ?thesis by (simp add: install_custom_sql_def install_manifest_items)
qed

subsection \<open>sync_apps as a whole\<close>

lemma create_model_iter_kept:
  "create_model_iter env opts a m st = (r, st', ev) \<Longrightarrow>
     list_all (\<lambda>m. \<not> proxy m \<and> managed m) (created_of ev) \<and> list_all (\<lambda>b. b = []) (editor_exits ev)"
  by (auto simp add: create_model_iter_def Let_def say_def split: if_splits option.splits)

lemma create_model_list_kept:
  "create_model_list env opts a ms st = (r, st', ev) \<Longrightarrow>
     list_all (\<lambda>m. \<not> proxy m \<and> managed m) (created_of ev) \<and> list_all (\<lambda>b. b = []) (editor_exits ev)"
proof (induction ms arbitrary: st r st' ev)
  case Nil
  then show ?case by simp
next
  case (Cons m ms)
  then show ?case
    by (auto split: prod.splits option.splits dest: create_model_iter_kept)
qed

lemma create_manifest_kept:
  "create_manifest env opts mf st = (r, st', ev) \<Longrightarrow>
     list_all (\<lambda>m. \<not> proxy m \<and> managed m) (created_of ev) \<and> list_all (\<lambda>b. b = []) (editor_exits ev)"
proof (induction mf arbitrary: st r st' ev)
  case Nil
  then show ?case by simp
next
  case (Cons p mf)
  then show ?case
    by (cases p) (auto split: prod.splits option.splits dest: create_model_list_kept)
qed

lemma create_tables_kept:
  assumes "create_tables env opts db mf = (r, st, ev)"
  shows "list_all (\<lambda>m. \<not> proxy m \<and> managed m) (created_of ev) \<and> list_all (\<lambda>b. b = []) (editor_exits ev)"
  using assms
proof (cases rule: create_tables_cases)
  case (loop_failed e st1 evl)
  from create_manifest_kept[OF loop_failed(1)] show ?thesis
    unfolding loop_failed(3) by simp
next
  case (loop_done st1 evl)
  from create_manifest_kept[OF loop_done(1)] show ?thesis
    unfolding loop_done(2) by (simp add: deferred_events_projections)
qed

lemma sync_apps_cases:
  assumes "sync_apps env opts db app_labels = (r, db', ev)"
  obtains (failed) e st ev2 where
      "create_tables env opts db (manifest env db app_labels) = (Some e, st, ev2)"
      "r = Inl e" "db' = db_tables st"
      "ev = [Cursor_open, Table_names,
             Pre_migrate_signal (set (chain_values (manifest env db app_labels)))]
            @ ev2 @ [Cursor_close]"
    | (unfetched) e st ev2 ev3 where
      "create_tables env opts db (manifest env db app_labels) = (None, st, ev2)"
      "install_custom_sql env opts (created_models st) (manifest env db app_labels) = (Some e, ev3)"
      "r = Inl e" "db' = db_tables st"
      "ev = [Cursor_open, Table_names,
             Pre_migrate_signal (set (chain_values (manifest env db app_labels)))]
            @ ev2 @ [Cursor_close, Cursor_open] @ ev3 @ [Cursor_close]"
    | (succeeded) st ev2 ev3 where
      "create_tables env opts db (manifest env db app_labels) = (None, st, ev2)"
      "install_custom_sql env opts (created_models st) (manifest env db app_labels) = (None, ev3)"
      "r = Inr (created_models st)" "db' = db_tables st"
      "ev = [Cursor_open, Table_names,
             Pre_migrate_signal (set (chain_values (manifest env db app_labels)))]
            @ ev2 @ [Cursor_close, Cursor_open] @ ev3 @ [Cursor_close]
            @ load_initial_data opts app_labels"
proof (cases "create_tables env opts db (manifest env db app_labels)")
  case (fields r1 st ev2)
  show ?thesis
  proof (cases r1)
    case (Some e)
    with fields assms show ?thesis
      by (intro failed[of e st ev2]) (auto simp add: sync_apps_def Let_def)
  next
    case None
    obtain r3 ev3 where
      i: "install_custom_sql env opts (created_models st) (manifest env db app_labels) = (r3, ev3)"
      by (cases "install_custom_sql env opts (created_models st) (manifest env db app_labels)")
    show ?thesis
    proof (cases r3)
      case None3: None
      with None fields assms i show ?thesis
        by (intro succeeded[of st ev2 ev3]) (auto simp add: sync_apps_def Let_def)
    next
      case (Some e)
      with None fields assms i show ?thesis
        by (intro unfetched[of st ev2 e ev3]) (auto simp add: sync_apps_def Let_def)
    qed
  qed
qed

text \<open>The projections of the events of \<open>sync_apps\<close> are those of its creation phase.\<close>

lemma sync_apps_creation_events:
  assumes "sync_apps env opts db app_labels = (r, db', ev)"
  obtains st ev2 r2 where
    "create_tables env opts db (manifest env db app_labels) = (r2, st, ev2)"
    "db' = db_tables st"
    "\<And>created. r = Inr created \<Longrightarrow> r2 = None \<and> created = created_models st"
    "created_of ev = created_of ev2" "deferred_of ev = deferred_of ev2"
    "editor_exits ev = editor_exits ev2" "filter is_schema ev = filter is_schema ev2"
  using assms
proof (cases rule: sync_apps_cases)
  case (failed e st ev2)
  show ?thesis
    by (rule that[OF failed(1)]) (simp_all add: failed is_schema_def)
next
  case (unfetched e st ev2 ev3)
  note c = custom_event_projections[OF install_custom_sql_result(1)[OF unfetched(2)]]
  show ?thesis
    by (rule that[OF unfetched(1)]) (simp_all add: unfetched is_schema_def c)
next
  case (succeeded st ev2 ev3)
  note c = custom_event_projections[OF install_custom_sql_result(1)[OF succeeded(2)]]
  note l = loaddata_projections[of opts app_labels]
  show ?thesis
    by (rule that[OF succeeded(1)]) (simp_all add: succeeded is_schema_def c l)
qed

lemma creatable_empty_create_model_list:
  "filter (\<lambda>m. \<not> (proxy m \<or> \<not> managed m)) ms = [] \<Longrightarrow>
   create_model_list env opts a ms st = (None, st, [])"
  by (induction ms) (auto simp add: create_model_iter_def split: if_splits)

lemma creatable_empty_create_manifest:
  "creatable mf = [] \<Longrightarrow> create_manifest env opts mf st = (None, st, [])"
proof (induction mf)
  case Nil
  then show ?case by simp
next
  case (Cons p mf)
  obtain a ms where p: "p = (a, ms)" by (cases p)
  from Cons.prems have "filter (\<lambda>m. \<not> (proxy m \<or> \<not> managed m)) ms = []" and "creatable mf = []"
    by (simp_all add: p creatable_Cons)
  with Cons.IH show ?case
    by (simp add: p creatable_empty_create_model_list)
qed

lemma creatable_manifest:
  "creatable (manifest env tables app_labels) =
     filter (\<lambda>m. \<not> (proxy m \<or> \<not> managed m) \<and> model_installed env tables m)
       (chain_values (ordered_dict (all_models env app_labels)))"
  by (simp add: creatable_def chain_values_manifest conj_commute)

text \<open>After a run that returned, nothing of the same apps is left to create.\<close>

lemma creatable_after_sync:
  assumes "db' = db \<union> (\<lambda>m. table_name_converter env (db_table m))
                        ` set (creatable (manifest env db app_labels))"
  shows "creatable (manifest env db' app_labels) = []"
proof -
  have "\<not> model_installed env db' m"
    if m: "m \<in> set (chain_values (ordered_dict (all_models env app_labels)))"
      and kept: "\<not> (proxy m \<or> \<not> managed m)" for m
  proof (cases "model_installed env db m")
    case True
    with m kept have "m \<in> set (creatable (manifest env db app_labels))"
      by (simp add: creatable_manifest)
    then have "table_name_converter env (db_table m) \<in> db'"
      unfolding assms by blast
    then show ?thesis by (simp add: model_installed_def)
  next
    case False
    then show ?thesis
      unfolding assms by (auto simp add: model_installed_def split: option.splits)
  qed
  then show ?thesis
    by (auto simp add: creatable_manifest filter_empty_conv)
qed

subsection \<open>The small project, run\<close>

lemmas project_defs =
  project_def blog_def shop_def post_def tag_def legacy_def post_proxy_def default_options_def

lemma project_manifest_on:
  assumes "''blog_post'' \<notin> db" and "''blog_tag'' \<notin> db" and "''legacy_rows'' \<notin> db"
  shows "manifest project db [''blog''] = [(''blog'', [post, tag, legacy, post_proxy])]"
  using assms
  by (simp add: manifest_def all_models_def ordered_dict_def model_installed_def project_defs)

lemma project_manifest:
  "manifest project {} [''blog''] = [(''blog'', [post, tag, legacy, post_proxy])]"
  by (rule project_manifest_on) simp_all

lemma project_create_tables:
  "create_tables project default_options db [(''blog'', [post, tag, legacy, post_proxy])]
   = (None,
      \<lparr>deferred_sql = [''ALTER TABLE blog_post ADD CONSTRAINT fk'',
                       ''ALTER TABLE blog_tag ADD CONSTRAINT fk''],
       created_models = {tag, post}, db_tables = insert ''blog_tag'' (insert ''blog_post'' db)\<rparr>,
      [Stdout ''  Creating tables...\<newline>'', Atomic_enter True,
       Schema_editor_enter, Stdout ''    Creating table blog_post\<newline>'', Create_model post,
       Schema_editor_exit [],
       Schema_editor_enter, Stdout ''    Creating table blog_tag\<newline>'', Create_model tag,
       Schema_editor_exit [],
       Stdout ''    Running deferred SQL...\<newline>'',
       Execute_deferred ''ALTER TABLE blog_post ADD CONSTRAINT fk'',
       Execute_deferred ''ALTER TABLE blog_tag ADD CONSTRAINT fk'',
       Atomic_commit])"
  by (simp add: create_tables_def create_model_iter_def table_created_def say_def Let_def
        project_defs)

lemma project_install_custom_sql:
  "install_custom_sql project default_options {tag, post}
     [(''blog'', [post, tag, legacy, post_proxy])]
   = (None,
      [Stdout ''  Installing custom SQL...\<newline>'',
       Atomic_custom_enter, Execute_custom ''INSERT INTO blog_post'', Atomic_custom_rollback,
       Stderr ''    Failed to install custom SQL for blog.Post model: syntax error\<newline>'',
       Atomic_custom_enter, Execute_custom ''INSERT INTO blog_tag'', Atomic_custom_commit])"
  by (simp add: install_custom_sql_def install_custom_sql_model_def failed_custom_sql_def say_def
        project_defs)

lemma project_sync_apps_on:
  assumes "''blog_post'' \<notin> db" and "''blog_tag'' \<notin> db" and "''legacy_rows'' \<notin> db"
  shows "sync_apps project default_options db [''blog'']
   = (Inr {tag, post}, insert ''blog_tag'' (insert ''blog_post'' db),
      [Cursor_open, Table_names, Pre_migrate_signal {post, tag, legacy, post_proxy},
       Stdout ''  Creating tables...\<newline>'', Atomic_enter True,
       Schema_editor_enter, Stdout ''    Creating table blog_post\<newline>'', Create_model post,
       Schema_editor_exit [],
       Schema_editor_enter, Stdout ''    Creating table blog_tag\<newline>'', Create_model tag,
       Schema_editor_exit [],
       Stdout ''    Running deferred SQL...\<newline>'',
       Execute_deferred ''ALTER TABLE blog_post ADD CONSTRAINT fk'',
       Execute_deferred ''ALTER TABLE blog_tag ADD CONSTRAINT fk'',
       Atomic_commit, Cursor_close, Cursor_open,
       Stdout ''  Installing custom SQL...\<newline>'',
       Atomic_custom_enter, Execute_custom ''INSERT INTO blog_post'', Atomic_custom_rollback,
       Stderr ''    Failed to install custom SQL for blog.Post model: syntax error\<newline>'',
       Atomic_custom_enter, Execute_custom ''INSERT INTO blog_tag'', Atomic_custom_commit,
       Cursor_close, Call_loaddata ''blog''])"
  by (simp add: sync_apps_def Let_def project_manifest_on[OF assms] project_create_tables
        project_install_custom_sql chain_values_def)
     (simp add: load_initial_data_def default_options_def)

lemma project_sync_apps:
  "sync_apps project default_options {} [''blog'']
   = (Inr {tag, post}, {''blog_tag'', ''blog_post''},
      [Cursor_open, Table_names, Pre_migrate_signal {post, tag, legacy, post_proxy},
       Stdout ''  Creating tables...\<newline>'', Atomic_enter True,
       Schema_editor_enter, Stdout ''    Creating table blog_post\<newline>'', Create_model post,
       Schema_editor_exit [],
       Schema_editor_enter, Stdout ''    Creating table blog_tag\<newline>'', Create_model tag,
       Schema_editor_exit [],
       Stdout ''    Running deferred SQL...\<newline>'',
       Execute_deferred ''ALTER TABLE blog_post ADD CONSTRAINT fk'',
       Execute_deferred ''ALTER TABLE blog_tag ADD CONSTRAINT fk'',
       Atomic_commit, Cursor_close, Cursor_open,
       Stdout ''  Installing custom SQL...\<newline>'',
       Atomic_custom_enter, Execute_custom ''INSERT INTO blog_post'', Atomic_custom_rollback,
       Stderr ''    Failed to install custom SQL for blog.Post model: syntax error\<newline>'',
       Atomic_custom_enter, Execute_custom ''INSERT INTO blog_tag'', Atomic_custom_commit,
       Cursor_close, Call_loaddata ''blog''])"
  by (rule project_sync_apps_on) simp_all

lemma project_models_differ:
  "post \<noteq> tag" "post \<noteq> legacy" "post \<noteq> post_proxy" "tag \<noteq> legacy" "tag \<noteq> post_proxy"
  "legacy \<noteq> post_proxy"
  by (simp_all add: project_defs)

subsection \<open>The phases of handle\<close>

lemma sublist_join: "x \<in> set xs \<Longrightarrow> sublist x (join sep xs)"
proof (induction sep xs rule: join.induct)
  case (1 sep)
  then show ?case by simp
next
  case (2 sep y)
  then show ?case by simp
next
  case (3 sep y z zs)
  show ?case
  proof (cases "x = y")
    case True
    then show ?thesis by simp
  next
    case False
    with 3 have "sublist x (join sep (z # zs))" by simp
    then obtain ps ss where "join sep (z # zs) = ps @ x @ ss" by (auto simp add: sublist_def)
    then have "join sep (y # z # zs) = (y @ sep @ ps) @ x @ ss" by simp
    then show ?thesis unfolding sublist_def by blast
  qed
qed

lemma sublist_conflict_message:
  assumes "item \<in> set cs"
  shows "sublist (conflict_entry item) (conflict_message cs)"
proof -
  from assms have "sublist (conflict_entry item) (join ''; '' (map conflict_entry cs))"
    by (intro sublist_join) simp
  then obtain ps ss where "join ''; '' (map conflict_entry cs) = ps @ conflict_entry item @ ss"
    by (auto simp add: sublist_def)
  then have "conflict_message cs
             = (''Conflicting migrations detected ('' @ ps) @ conflict_entry item
               @ (ss @ '').\<newline>To fix them run '' @ quoted ''python manage.py makemigrations --merge'')"
    by (simp add: conflict_message_def)
  then show ?thesis unfolding sublist_def by blast
qed

lemma resolve_targets_events:
  assumes "resolve_targets env opts = (r, ev)"
  shows "pre_signals ev = []" and "post_signals ev = []" and "filter is_ddl ev = []"
    and "stdout_of ev = []"
  using assms
  by (auto simp add: resolve_targets_def Let_def is_ddl_def
        split: if_splits sum.splits lookup_error.splits)

lemma resolve_targets_ok:
  assumes "resolve_targets env opts = (Inr (targets, run_syncdb, only), ev)"
  shows "run_syncdb = (arg (opt_app_label opts) = [])" and "\<not> only \<longrightarrow> targets \<noteq> []"
  using assms
  by (auto simp add: resolve_targets_def Let_def
        split: if_splits sum.splits lookup_error.splits)

lemma print_info_events:
  assumes "print_info env opts targets run_syncdb only = (r, ev)"
  shows "pre_signals ev = []" and "post_signals ev = []" and "filter is_ddl ev = []"
  using assms
  by (auto simp add: print_info_def Let_def is_ddl_def
        split: if_splits list.splits option.splits)

lemma print_info_ok:
  "only \<or> targets \<noteq> [] \<Longrightarrow> fst (print_info env opts targets run_syncdb only) = None"
  by (auto simp add: print_info_def Let_def split: list.splits option.splits)

lemma run_migrations_events:
  assumes "run_migrations env opts targets pl = (r, ev)"
  shows "pre_signals ev = []" and "post_signals ev = []"
  using assms
  by (auto simp add: run_migrations_def Let_def say_def changes_notice_def
        split: if_splits option.splits)

lemma sync_apps_signals:
  assumes "sync_apps env opts db app_labels = (r, db', ev)"
  shows "pre_signals ev = [set (chain_values (manifest env db app_labels))]
       \<and> post_signals ev = []"
  using assms
proof (cases rule: sync_apps_cases)
  case (failed e st ev2)
  note e = create_tables_events[OF failed(1)]
  show ?thesis
    unfolding failed(4) using e(3,4) by simp
next
  case (unfetched e st ev2 ev3)
  note e = create_tables_events[OF unfetched(1)]
  note c = custom_event_projections[OF install_custom_sql_result(1)[OF unfetched(2)]]
  show ?thesis
    unfolding unfetched(5) using e(3,4) c by simp
next
  case (succeeded st ev2 ev3)
  note e = create_tables_events[OF succeeded(1)]
  note c = custom_event_projections[OF install_custom_sql_result(1)[OF succeeded(2)]]
  note l = loaddata_projections[of opts app_labels]
  show ?thesis
    unfolding succeeded(5) using e(3,4) c l by simp
qed

lemma run_syncdb_phase_signals:
  assumes "run_syncdb_phase env opts run_syncdb db = (r, db', ev)"
  shows "pre_signals ev =
           [if run_syncdb \<and> unmigrated_apps env \<noteq> []
            then set (chain_values (manifest env db (unmigrated_apps env))) else {}]"
    and "post_signals ev = []"
    and "r = Inr created \<longrightarrow>
           created = (if run_syncdb \<and> unmigrated_apps env \<noteq> []
                      then set (creatable (manifest env db (unmigrated_apps env))) else {})"
proof -
  show "pre_signals ev =
           [if run_syncdb \<and> unmigrated_apps env \<noteq> []
            then set (chain_values (manifest env db (unmigrated_apps env))) else {}]"
    and "post_signals ev = []"
    using assms sync_apps_signals[of env opts db "unmigrated_apps env"]
    by (auto simp add: run_syncdb_phase_def split: if_splits prod.splits)
  show "r = Inr created \<longrightarrow>
           created = (if run_syncdb \<and> unmigrated_apps env \<noteq> []
                      then set (creatable (manifest env db (unmigrated_apps env))) else {})"
  proof (cases "run_syncdb \<and> unmigrated_apps env \<noteq> []")
    case False
    with assms show ?thesis by (auto simp add: run_syncdb_phase_def)
  next
    case True
    obtain r1 db1 ev1 where s: "sync_apps env opts db (unmigrated_apps env) = (r1, db1, ev1)"
      by (cases "sync_apps env opts db (unmigrated_apps env)")
    with True assms have r: "r = r1" by (simp add: run_syncdb_phase_def)
    from s show ?thesis
    proof (cases rule: sync_apps_cases)
      case (failed e st ev2)
      with r show ?thesis by simp
    next
      case (unfetched e st ev2 ev3)
      with r show ?thesis by simp
    next
      case (succeeded st ev2 ev3)
      from create_tables_ok(4)[OF succeeded(1)] succeeded(3) r True show ?thesis by simp
    qed
  qed
qed

text \<open>How a call of \<open>handle\<close> that is not a listing begins, and what one that returns is made of.\<close>

lemma handle_begins:
  assumes "\<not> opt_list opts"
  shows "prefix
           (map (\<lambda>ac. Import_module (name ac)) (filter management_submodule (app_configs env))
            @ [Prepare_database, Migration_executor, Detect_conflicts])
           (snd (snd (handle env opts db)))"
  using assms
  by (simp add: handle_def Let_def split: prod.splits sum.splits option.splits)

lemma handle_returns:
  assumes "handle env opts db = (Inr v, db', ev)" and "\<not> opt_list opts"
  obtains targets run_syncdb only ev2 ev4 created ev5 ev7 where
    "conflicts env = []"
    "resolve_targets env opts = (Inr (targets, run_syncdb, only), ev2)"
    "print_info env opts targets run_syncdb only = (None, ev4)"
    "run_syncdb_phase env opts run_syncdb (executor_tables env db) = (Inr created, db', ev5)"
    "run_migrations env opts targets (migration_plan env targets) = (None, ev7)"
    "ev = map (\<lambda>ac. Import_module (name ac)) (filter management_submodule (app_configs env))
          @ [Prepare_database, Migration_executor, Detect_conflicts] @ ev2
          @ [Migration_plan targets] @ ev4 @ ev5
          @ (if opt_test_flush opts then [Call_flush] else []) @ ev7
          @ [Post_migrate_signal created]"
    "v = ReturnNone"
  using assms
  by (auto simp add: handle_def Let_def split: if_splits prod.splits sum.splits option.splits)

section \<open>The claims\<close>

subsection \<open>Resolving the request\<close>

text \<open>
  C7 (as amended). For every request that gives both an app label and the migration name
  "zero", where the app has migrations (it is in \<open>migrated_apps\<close>), the targets are the
  single target \<open>(app_label, None)\<close>, whatever migrations the loader knows; no unmigrated app
  is synchronized. The guard of lines 105-109 is the amendment.
\<close>

theorem zero_unapplies_all:
  assumes "opt_app_label opts = Some app_label" and "app_label \<noteq> []"
    and "opt_migration_name opts = Some ''zero''"
    and "app_label \<in> migrated_apps env"
  shows "resolve_targets env opts = (Inr ([(app_label, None)], False, False), [])"
  using assms by (simp add: resolve_targets_def arg_def)

theorem zero_unapplies_all_witness:
  "resolve_targets project
     (default_options\<lparr>opt_app_label := Some ''shop'', opt_migration_name := Some ''zero''\<rparr>)
   = (Inr ([(''shop'', None)], False, False), [])"
  by (rule zero_unapplies_all) (simp_all add: default_options_def project_def)

text \<open>
  C7 as stated fails: \<open>blog\<close> has no migrations, and "zero" for it raises the
  \<open>CommandError\<close> of line 106 instead of giving a target.
\<close>

theorem zero_without_migrations:
  "resolve_targets project
     (default_options\<lparr>opt_app_label := Some ''blog'', opt_migration_name := Some ''zero''\<rparr>)
   = (Inl (no_migrations_error ''blog''), [])"
  by (simp add: resolve_targets_def arg_def default_options_def project_def)

text \<open>
  C8 (as amended). For every request that gives an app label and a migration name other than
  "zero", where the app has migrations (it is in \<open>migrated_apps\<close>), the name is resolved as a
  prefix among the migrations of that app: more than one match raises the "More than one
  migration matches" error, no match raises the "Cannot find a migration matching" error, and
  exactly one match gives the single target \<open>(app_label, full name)\<close>.
\<close>

theorem prefix_resolution:
  assumes "opt_app_label opts = Some app_label" and "app_label \<noteq> []"
    and "opt_migration_name opts = Some migration_name" and "migration_name \<noteq> []"
    and "migration_name \<noteq> ''zero''"
    and "app_label \<in> migrated_apps env"
  shows "(length (matching_migrations env app_label migration_name) > 1 \<longrightarrow>
            fst (resolve_targets env opts) = Inl (ambiguous_error migration_name app_label))
       \<and> (matching_migrations env app_label migration_name = [] \<longrightarrow>
            fst (resolve_targets env opts) = Inl (unknown_error migration_name app_label))
       \<and> (\<forall>key. matching_migrations env app_label migration_name = [key] \<longrightarrow>
            fst (resolve_targets env opts) = Inr ([(app_label, Some (snd key))], False, False))"
  using assms
  by (auto simp add: resolve_targets_def arg_def get_migration_by_prefix_def
           split: list.splits)

theorem prefix_resolution_witness:
  "fst (resolve_targets project
          (default_options\<lparr>opt_app_label := Some ''shop'', opt_migration_name := Some ''0002''\<rparr>))
     = Inl (ambiguous_error ''0002'' ''shop'')
   \<and> fst (resolve_targets project
          (default_options\<lparr>opt_app_label := Some ''shop'', opt_migration_name := Some ''0003''\<rparr>))
     = Inl (unknown_error ''0003'' ''shop'')
   \<and> fst (resolve_targets project
          (default_options\<lparr>opt_app_label := Some ''shop'', opt_migration_name := Some ''0001''\<rparr>))
     = Inr ([(''shop'', Some ''0001_initial'')], False, False)"
proof (intro conjI)
  let ?o2 = "default_options\<lparr>opt_app_label := Some ''shop'', opt_migration_name := Some ''0002''\<rparr>"
  let ?o3 = "default_options\<lparr>opt_app_label := Some ''shop'', opt_migration_name := Some ''0003''\<rparr>"
  let ?o1 = "default_options\<lparr>opt_app_label := Some ''shop'', opt_migration_name := Some ''0001''\<rparr>"
  have m2: "matching_migrations project ''shop'' ''0002''
            = [(''shop'', ''0002_add_author''), (''shop'', ''0002_add_price'')]"
    by (simp add: matching_migrations_def project_def)
  have m3: "matching_migrations project ''shop'' ''0003'' = []"
    by (simp add: matching_migrations_def project_def)
  have m1: "matching_migrations project ''shop'' ''0001'' = [(''shop'', ''0001_initial'')]"
    by (simp add: matching_migrations_def project_def)
  have shop: "''shop'' \<in> migrated_apps project" by (simp add: project_def)
  show "fst (resolve_targets project ?o2) = Inl (ambiguous_error ''0002'' ''shop'')"
    using prefix_resolution[of ?o2 "''shop''" "''0002''" project] m2 shop
    by (simp add: default_options_def)
  show "fst (resolve_targets project ?o3) = Inl (unknown_error ''0003'' ''shop'')"
    using prefix_resolution[of ?o3 "''shop''" "''0003''" project] m3 shop
    by (simp add: default_options_def)
  show "fst (resolve_targets project ?o1) = Inr ([(''shop'', Some ''0001_initial'')], False, False)"
    using prefix_resolution[of ?o1 "''shop''" "''0001''" project] m1 shop
    by (simp add: default_options_def)
qed

text \<open>
  C8 as stated fails: no migration of \<open>blog\<close> matches \<open>0001\<close>, and the error raised is the
  one of line 106 for an app without migrations, not the one of line 122.
\<close>

theorem prefix_without_migrations:
  "matching_migrations project ''blog'' ''0001'' = []
   \<and> fst (resolve_targets project
          (default_options\<lparr>opt_app_label := Some ''blog'', opt_migration_name := Some ''0001''\<rparr>))
     = Inl (no_migrations_error ''blog'')
   \<and> no_migrations_error ''blog'' \<noteq> unknown_error ''0001'' ''blog''"
  by (simp add: resolve_targets_def arg_def default_options_def project_def
        matching_migrations_def no_migrations_error_def unknown_error_def quoted_def)

subsection \<open>Legacy synchronization\<close>



text \<open>
  C3. When a run of \<open>sync_apps\<close> has returned, a second run over the same apps on the
  database it left returns the empty set, leaves the database as it is, and issues no table
  creation and no deferred statement.
\<close>

theorem sync_apps_idempotent:
  assumes "sync_apps env opts db app_labels = (Inr created, db', ev)"
  shows "fst (sync_apps env opts db' app_labels) = Inr {}
       \<and> fst (snd (sync_apps env opts db' app_labels)) = db'
       \<and> filter is_schema (snd (snd (sync_apps env opts db' app_labels))) = []"
  using assms
proof (cases rule: sync_apps_cases)
  case (failed e st ev2)
  then show ?thesis by simp
next
  case (unfetched e st ev2 ev3)
  then show ?thesis by simp
next
  case (succeeded st ev2 ev3)
  from create_tables_ok(5)[OF succeeded(1)] succeeded(4)
  have "db' = db \<union> (\<lambda>m. table_name_converter env (db_table m))
                     ` set (creatable (manifest env db app_labels))" by simp
  then have none: "creatable (manifest env db' app_labels) = []"
    by (rule creatable_after_sync)
  let ?mf = "manifest env db' app_labels"
  have second: "create_tables env opts db' ?mf
                = (None, \<lparr>deferred_sql = [], created_models = {}, db_tables = db'\<rparr>,
                   say opts 1 ''  Creating tables...\<newline>'' @ [Atomic_enter (can_rollback_ddl env)]
                   @ say opts 1 ''    Running deferred SQL...\<newline>'' @ [Atomic_commit])"
    by (simp add: create_tables_def Let_def creatable_empty_create_manifest[OF none])
  note l = loaddata_projections[of opts app_labels]
  show ?thesis
    by (simp add: sync_apps_def Let_def second install_custom_sql_nothing is_schema_def l)
qed

theorem sync_apps_idempotent_witness:
  "fst (sync_apps project default_options {''blog_tag'', ''blog_post''} [''blog'']) = Inr {}
   \<and> fst (snd (sync_apps project default_options {''blog_tag'', ''blog_post''} [''blog'']))
     = {''blog_tag'', ''blog_post''}
   \<and> filter is_schema
       (snd (snd (sync_apps project default_options {''blog_tag'', ''blog_post''} [''blog''])))
     = []"
  by (rule sync_apps_idempotent[OF project_sync_apps])

lemma Create_model_created_of: "Create_model m \<in> set ev \<Longrightarrow> m \<in> set (created_of ev)"
  by (induction ev) auto

lemma all_models_distinct:
  "distinct (map label (app_configs env)) \<Longrightarrow> distinct (map fst (all_models env app_labels))"
  by (simp add: all_models_def comp_def distinct_map_filter)

lemma chain_values_all_models:
  "m \<in> set (chain_values (all_models env app_labels)) \<longleftrightarrow>
     (\<exists>ac \<in> set (app_configs env).
        models_module ac \<and> label ac \<in> set app_labels \<and> m \<in> set (migratable_models ac))"
  by (auto simp add: chain_values_def all_models_def)

text \<open>
  C4 (as amended). Where the app configs have distinct labels (they are the values of a
  dictionary keyed by label), a model of an app config that has a models module and is among
  the requested apps is in the manifest if and only if its converted table name is not among
  the introspected table names and, when it is auto-created, neither is the table of the model
  it was created for. A proxy or unmanaged model is never created: no run of \<open>sync_apps\<close> calls
  \<open>create_model\<close> on it or returns it among the created models.
\<close>

theorem manifest_membership:
  assumes "distinct (map label (app_configs env))"
  shows "(m \<in> set (chain_values (manifest env tables app_labels)) \<longleftrightarrow>
            (\<exists>ac \<in> set (app_configs env).
               models_module ac \<and> label ac \<in> set app_labels \<and> m \<in> set (migratable_models ac))
            \<and> table_name_converter env (db_table m) \<notin> tables
            \<and> (\<forall>base. auto_created m = Some base \<longrightarrow> table_name_converter env base \<notin> tables))
       \<and> (proxy m \<or> \<not> managed m \<longrightarrow>
            Create_model m \<notin> set (snd (snd (sync_apps env opts tables app_labels)))
            \<and> (\<forall>created. fst (sync_apps env opts tables app_labels) = Inr created \<longrightarrow> m \<notin> created))"
proof (intro conjI impI)
  have "ordered_dict (all_models env app_labels) = all_models env app_labels"
    by (rule ordered_dict_distinct) (rule all_models_distinct[OF assms])
  then show "m \<in> set (chain_values (manifest env tables app_labels)) \<longleftrightarrow>
            (\<exists>ac \<in> set (app_configs env).
               models_module ac \<and> label ac \<in> set app_labels \<and> m \<in> set (migratable_models ac))
            \<and> table_name_converter env (db_table m) \<notin> tables
            \<and> (\<forall>base. auto_created m = Some base \<longrightarrow> table_name_converter env base \<notin> tables)"
    by (simp add: chain_values_manifest chain_values_all_models model_installed_def
          split: option.splits)
next
  assume skipped: "proxy m \<or> \<not> managed m"
  obtain r db' ev where run: "sync_apps env opts tables app_labels = (r, db', ev)"
    by (cases "sync_apps env opts tables app_labels")
  from run show "Create_model m \<notin> set (snd (snd (sync_apps env opts tables app_labels)))"
  proof (cases rule: sync_apps_creation_events)
    case (1 st ev2 r2)
    from create_tables_kept[OF 1(1)] skipped have "m \<notin> set (created_of ev2)"
      by (auto simp add: list_all_iff)
    with 1(4) have "m \<notin> set (created_of ev)" by simp
    with run show ?thesis by (auto dest: Create_model_created_of)
  qed
  from run show "\<forall>created. fst (sync_apps env opts tables app_labels) = Inr created \<longrightarrow> m \<notin> created"
  proof (cases rule: sync_apps_cases)
    case (failed e st ev2)
    with run show ?thesis by simp
  next
    case (unfetched e st ev2 ev3)
    with run show ?thesis by simp
  next
    case (succeeded st ev2 ev3)
    from create_tables_ok(4)[OF succeeded(1)] skipped have "m \<notin> created_models st"
      by (auto simp add: creatable_def)
    with run succeeded(3) show ?thesis by simp
  qed
qed

theorem manifest_membership_witness:
  "post \<in> set (chain_values (manifest project {} [''blog'']))
   \<and> post \<notin> set (chain_values (manifest project {''blog_post''} [''blog'']))
   \<and> Create_model legacy \<notin> set (snd (snd (sync_apps project default_options {} [''blog''])))
   \<and> legacy \<notin> {tag, post}"
proof -
  have d: "distinct (map label (app_configs project))" by (simp add: project_defs)
  have blog: "blog \<in> set (app_configs project)" "models_module blog" "label blog = ''blog''"
    "post \<in> set (migratable_models blog)"
    by (simp_all add: project_def blog_def)
  have conv: "table_name_converter project (db_table post) = ''blog_post''"
    "auto_created post = None"
    by (simp_all add: project_def post_def)
  have a: "post \<in> set (chain_values (manifest project {} [''blog'']))"
    using manifest_membership[OF d, of post "{}" "[''blog'']" default_options] blog conv
    by auto
  have b: "post \<notin> set (chain_values (manifest project {''blog_post''} [''blog'']))"
    using manifest_membership[OF d, of post "{''blog_post''}" "[''blog'']" default_options] conv
    by simp
  have u: "\<not> managed legacy" by (simp add: legacy_def)
  have c: "Create_model legacy \<notin> set (snd (snd (sync_apps project default_options {} [''blog''])))
           \<and> legacy \<notin> {tag, post}"
    using manifest_membership[OF d, of legacy "{}" "[''blog'']" default_options] u
    by (simp add: project_sync_apps)
  from a b c show ?thesis by blast
qed

text \<open>
  C4 as stated fails in its second part: the tables of the unmanaged model and of the proxy
  are not there, and both models are in the manifest.
\<close>

theorem manifest_holds_unmanaged_and_proxy:
  "\<not> managed legacy \<and> proxy post_proxy
   \<and> manifest project {''blog_tag''} [''blog''] = [(''blog'', [post, legacy, post_proxy])]"
  by (simp add: manifest_def all_models_def ordered_dict_def model_installed_def project_defs)




subsection \<open>The command as a whole\<close>

text \<open>
  C1 (as amended). In every call of \<open>handle\<close> that is not a listing (\<open>--list\<close>), the loader is
  asked for conflicts. What comes before that question is the imports of the management
  modules, the \<open>prepare_database\<close> hook of the backend and the building of the executor (line
  85, which may itself change the table names): no target is resolved and no table creation,
  deferred or custom SQL or \<open>executor.migrate\<close> comes before it. If there are conflicts the call
  raises the \<open>CommandError\<close> of lines 95-98, whatever target was requested, and does nothing
  more; its message contains, for every conflicting app, the names in conflict, joined by
  commas, followed by "in" and the app.
\<close>

theorem conflicts_checked_first:
  assumes "\<not> opt_list opts"
  shows "takeWhile (\<lambda>e. e \<noteq> Detect_conflicts) (snd (snd (handle env opts db)))
           = map (\<lambda>ac. Import_module (name ac)) (filter management_submodule (app_configs env))
             @ [Prepare_database, Migration_executor]
       \<and> Detect_conflicts \<in> set (snd (snd (handle env opts db)))
       \<and> (\<forall>e \<in> set (takeWhile (\<lambda>e. e \<noteq> Detect_conflicts) (snd (snd (handle env opts db)))).
             \<not> is_resolution e \<and> \<not> is_ddl e)
       \<and> (conflicts env \<noteq> [] \<longrightarrow>
             handle env opts db
               = (Inl (CommandError
                    (''Conflicting migrations detected (''
                     @ join ''; '' (map (\<lambda>item. join '', '' (snd item) @ '' in '' @ fst item)
                                      (conflicts env))
                     @ '').\<newline>To fix them run 'python manage.py makemigrations --merge''
                     @ [CHR 0x27])),
                  executor_tables env db,
                  map (\<lambda>ac. Import_module (name ac))
                    (filter management_submodule (app_configs env))
                  @ [Prepare_database, Migration_executor, Detect_conflicts])
             \<and> (\<forall>item \<in> set (conflicts env).
                   sublist (join '', '' (snd item) @ '' in '' @ fst item)
                     (''Conflicting migrations detected (''
                      @ join ''; '' (map (\<lambda>item. join '', '' (snd item) @ '' in '' @ fst item)
                                       (conflicts env))
                      @ '').\<newline>To fix them run 'python manage.py makemigrations --merge''
                      @ [CHR 0x27])))"
proof -
  let ?imports = "map (\<lambda>ac. Import_module (name ac)) (filter management_submodule (app_configs env))"
  from handle_begins[OF assms, of env db] obtain rest where
    ev: "snd (snd (handle env opts db))
         = ?imports @ [Prepare_database, Migration_executor, Detect_conflicts] @ rest"
    by (auto simp add: prefix_def)
  have before: "takeWhile (\<lambda>e. e \<noteq> Detect_conflicts)
                  (?imports @ [Prepare_database, Migration_executor, Detect_conflicts] @ rest)
                = ?imports @ [Prepare_database, Migration_executor]"
    by (subst takeWhile_append2) auto
  have none: "\<forall>e \<in> set (?imports @ [Prepare_database, Migration_executor]).
                \<not> is_resolution e \<and> \<not> is_ddl e"
    by (auto simp add: is_resolution_def is_ddl_def)
  have entry: "conflict_entry = (\<lambda>item. join '', '' (snd item) @ '' in '' @ fst item)"
    by (rule ext) (simp add: conflict_entry_def case_prod_unfold)
  have msg: "conflict_message (conflicts env)
             = ''Conflicting migrations detected (''
               @ join ''; '' (map (\<lambda>item. join '', '' (snd item) @ '' in '' @ fst item)
                                (conflicts env))
               @ '').\<newline>To fix them run 'python manage.py makemigrations --merge''
               @ [CHR 0x27]"
    by (simp add: conflict_message_def quoted_def entry)
  have raised: "handle env opts db
                = (Inl (CommandError (conflict_message (conflicts env))), executor_tables env db,
                   ?imports @ [Prepare_database, Migration_executor, Detect_conflicts])"
    if "conflicts env \<noteq> []"
    using that assms by (simp add: handle_def Let_def)
  have listed: "\<forall>item \<in> set (conflicts env).
                  sublist (join '', '' (snd item) @ '' in '' @ fst item)
                    (conflict_message (conflicts env))"
    using sublist_conflict_message[of _ "conflicts env"] by (simp add: entry)
  show ?thesis
    unfolding ev before using none raised listed unfolding msg by auto
qed

theorem conflicts_checked_first_witness:
  "fst (handle conflicting_project
          (default_options\<lparr>opt_app_label := Some ''shop'', opt_migration_name := Some ''0001''\<rparr>) {})
     = Inl (CommandError
         (''Conflicting migrations detected (0002_add_author, 0002_add_price in shop).''
          @ ''\<newline>To fix them run 'python manage.py makemigrations --merge'' @ [CHR 0x27]))
   \<and> snd (snd (handle conflicting_project
          (default_options\<lparr>opt_app_label := Some ''shop'', opt_migration_name := Some ''0001''\<rparr>) {}))
     = [Import_module ''site.blog'', Prepare_database, Migration_executor, Detect_conflicts]"
proof -
  let ?opts = "default_options\<lparr>opt_app_label := Some ''shop'', opt_migration_name := Some ''0001''\<rparr>"
  have l: "\<not> opt_list ?opts" by (simp add: default_options_def)
  have c: "conflicts conflicting_project = [(''shop'', [''0002_add_author'', ''0002_add_price''])]"
    by (simp add: conflicting_project_def project_def)
  have a: "map (\<lambda>ac. Import_module (name ac))
             (filter management_submodule (app_configs conflicting_project))
           = [Import_module ''site.blog'']"
    by (simp add: conflicting_project_def project_def blog_def shop_def)
  from conflicts_checked_first[OF l, of conflicting_project "{}"] show ?thesis
    unfolding c a by simp
qed

text \<open>
  C1 as stated fails twice. With \<open>--list\<close> the call hands over to \<open>showmigrations\<close> (lines
  66-80) and returns without asking for conflicts, although there are some. And without it,
  on a database that has no \<open>django_migrations\<close> table, building the executor (line 85)
  creates that table before the conflicts are asked for: the call raises the conflict error
  and the table is there.
\<close>

theorem conflicts_not_always_first:
  "conflicts conflicting_project \<noteq> []
   \<and> fst (handle conflicting_project (default_options\<lparr>opt_list := True\<rparr>) {})
     = Inr ReturnShowmigrations
   \<and> Detect_conflicts
       \<notin> set (snd (snd (handle conflicting_project (default_options\<lparr>opt_list := True\<rparr>) {})))
   \<and> fst (handle conflicting_project default_options {})
     = Inl (CommandError
         (''Conflicting migrations detected (0002_add_author, 0002_add_price in shop).''
          @ ''\<newline>To fix them run 'python manage.py makemigrations --merge'' @ [CHR 0x27]))
   \<and> snd (handle conflicting_project default_options {})
     = ({''django_migrations''},
        [Import_module ''site.blog'', Prepare_database, Migration_executor, Detect_conflicts])"
  by (simp add: handle_def Let_def conflict_message_def conflict_entry_def quoted_def
        conflicting_project_def project_defs)

text \<open>
  C2 (as amended). Every call of \<open>handle\<close> that is not a listing and returns sends exactly
  one \<open>pre_migrate\<close> and exactly one \<open>post_migrate\<close> signal, the latter as its last act. When
  \<open>sync_apps\<close> runs (no app label given and some app without migrations) the first carries
  the models of the manifest and the second the created models; otherwise both carry nothing.
  The manifest is that of the table names found once the executor is built.
\<close>

theorem one_signal_each:
  assumes "handle env opts db = (Inr v, db', ev)" and "\<not> opt_list opts"
  shows "pre_signals ev =
           [if arg (opt_app_label opts) = [] \<and> unmigrated_apps env \<noteq> []
            then set (chain_values (manifest env (executor_tables env db) (unmigrated_apps env)))
            else {}]
       \<and> post_signals ev =
           [if arg (opt_app_label opts) = [] \<and> unmigrated_apps env \<noteq> []
            then set (creatable (manifest env (executor_tables env db) (unmigrated_apps env)))
            else {}]
       \<and> last ev = Post_migrate_signal
           (if arg (opt_app_label opts) = [] \<and> unmigrated_apps env \<noteq> []
            then set (creatable (manifest env (executor_tables env db) (unmigrated_apps env)))
            else {})"
  using assms
proof (cases rule: handle_returns)
  case (1 targets run_syncdb only ev2 ev4 created ev5 ev7)
  note r = resolve_targets_events[OF 1(2)] resolve_targets_ok(1)[OF 1(2)]
  note p = print_info_events[OF 1(3)]
  note s = run_syncdb_phase_signals(1,2)[OF 1(4)]
  note s3 = run_syncdb_phase_signals(3)[OF 1(4), of created]
  note m = run_migrations_events[OF 1(5)]
  from s3 r(5) have created:
    "created = (if arg (opt_app_label opts) = [] \<and> unmigrated_apps env \<noteq> []
                then set (creatable (manifest env (executor_tables env db) (unmigrated_apps env)))
                else {})"
    by simp
  have no_import_signal: "pre_signals (map (\<lambda>ac. Import_module (name ac)) acs) = []
               \<and> post_signals (map (\<lambda>ac. Import_module (name ac)) acs) = []" for acs
    by (induction acs) simp_all
  show ?thesis
    unfolding 1(6) using r(1,2,5) p(1,2) s(1,2) m created by (simp add: no_import_signal)
qed

theorem one_signal_each_witness:
  "pre_signals (snd (snd (handle project default_options {})))
     = [{post, tag, legacy, post_proxy}]
   \<and> post_signals (snd (snd (handle project default_options {}))) = [{post, tag}]
   \<and> last (snd (snd (handle project default_options {}))) = Post_migrate_signal {post, tag}"
proof -
  have l: "\<not> opt_list default_options" "arg (opt_app_label default_options) = []"
    by (simp_all add: default_options_def arg_def)
  have u: "unmigrated_apps project = [''blog'']" by (simp add: project_def)
  have x: "executor_tables project {} = {''django_migrations''}" by (simp add: project_def)
  have mf: "manifest project {''django_migrations''} [''blog'']
            = [(''blog'', [post, tag, legacy, post_proxy])]"
    by (rule project_manifest_on) simp_all
  have sy: "fst (sync_apps project default_options {''django_migrations''} [''blog''])
            = Inr {tag, post}"
    by (subst project_sync_apps_on) simp_all
  have c: "creatable [(''blog'', [post, tag, legacy, post_proxy])] = [post, tag]"
    by (simp add: creatable_def chain_values_def post_def tag_def legacy_def post_proxy_def)
  have r: "resolve_targets project default_options
           = (Inr ([(''shop'', Some ''0002_add_price'')], True, True), [Leaf_nodes])"
    by (simp add: resolve_targets_def Let_def arg_def as_target_def project_def default_options_def)
  have p: "fst (print_info project default_options [(''shop'', Some ''0002_add_price'')] True True)
           = None"
    by (rule print_info_ok) simp
  have m: "fst (run_migrations project default_options [(''shop'', Some ''0002_add_price'')]
                  (migration_plan project [(''shop'', Some ''0002_add_price'')])) = None"
    by (simp add: run_migrations_def Let_def project_def default_options_def)
  obtain ev4 where p': "print_info project default_options [(''shop'', Some ''0002_add_price'')]
                          True True = (None, ev4)"
    using p by (cases "print_info project default_options [(''shop'', Some ''0002_add_price'')]
                          True True") auto
  obtain ev7 where m': "run_migrations project default_options [(''shop'', Some ''0002_add_price'')]
                          (migration_plan project [(''shop'', Some ''0002_add_price'')]) = (None, ev7)"
    using m by (cases "run_migrations project default_options [(''shop'', Some ''0002_add_price'')]
                          (migration_plan project [(''shop'', Some ''0002_add_price'')])") auto
  obtain db1 ev5 where sy': "sync_apps project default_options {''django_migrations''} [''blog'']
                             = (Inr {tag, post}, db1, ev5)"
    using sy by (cases "sync_apps project default_options {''django_migrations''} [''blog'']") auto
  have cf: "conflicts project = []" by (simp add: project_def)
  have ok: "fst (handle project default_options {}) = Inr ReturnNone"
    by (simp add: handle_def Let_def l r x u cf run_syncdb_phase_def p' m' sy')
  obtain db' ev where h: "handle project default_options {} = (Inr ReturnNone, db', ev)"
    using ok by (cases "handle project default_options {}") auto
  from one_signal_each[OF h l(1)] show ?thesis
    unfolding h by (simp add: l u x mf c chain_values_def insert_commute)
qed

text \<open>
  C2 as stated fails for a call that raises: with conflicting migrations \<open>handle\<close> raises at
  line 95 and has sent neither signal.
\<close>

theorem conflict_sends_no_signal:
  "fst (handle conflicting_project default_options {})
     = Inl (CommandError (conflict_message (conflicts conflicting_project)))
   \<and> pre_signals (snd (snd (handle conflicting_project default_options {}))) = []
   \<and> post_signals (snd (snd (handle conflicting_project default_options {}))) = []"
  by (simp add: handle_def Let_def conflicting_project_def project_defs)

text \<open>
  C9 (as amended). Take a call of \<open>handle\<close> that is not a listing, with no conflicts and a
  request that resolves, where the plan is empty, \<open>sync_apps\<close> is not run and the autodetector
  would find changes. The call returns and applies nothing: no table creation, deferred or
  custom SQL or \<open>executor.migrate\<close> occurs, and the table names are those found once the
  executor is built. At verbosity 1 or more the autodetector is asked and the last two things
  written to \<open>stdout\<close> are the notices of lines 201-209. Below verbosity 1 the autodetector is
  not asked and nothing is written.
\<close>

theorem undeclared_changes_reported:
  assumes "\<not> opt_list opts" and "conflicts env = []"
    and "resolve_targets env opts = (Inr (targets, run_syncdb, only), ev2)"
    and "migration_plan env targets = []"
    and "\<not> (run_syncdb \<and> unmigrated_apps env \<noteq> [])"
    and "changes env \<noteq> []"
  shows "fst (handle env opts db) = Inr ReturnNone
       \<and> fst (snd (handle env opts db)) = executor_tables env db
       \<and> filter is_ddl (snd (snd (handle env opts db))) = []
       \<and> (1 \<le> opt_verbosity opts \<longrightarrow>
            Autodetector_changes \<in> set (snd (snd (handle env opts db)))
            \<and> suffix
                [''  Your models have changes that are not yet reflected in a migration, and so won't be applied.'',
                 ''  Run 'manage.py makemigrations' to make new migrations, and then re-run 'manage.py migrate' to apply them.'']
                (stdout_of (snd (snd (handle env opts db)))))
       \<and> (opt_verbosity opts < 1 \<longrightarrow>
            Autodetector_changes \<notin> set (snd (snd (handle env opts db)))
            \<and> stdout_of (snd (snd (handle env opts db))) = [])"
proof -
  let ?imports = "map (\<lambda>ac. Import_module (name ac)) (filter management_submodule (app_configs env))"
  from resolve_targets_ok(2)[OF assms(3)] have "only \<or> targets \<noteq> []" by blast
  from print_info_ok[OF this, of env opts run_syncdb]
  obtain ev4 where p: "print_info env opts targets run_syncdb only = (None, ev4)"
    by (cases "print_info env opts targets run_syncdb only") auto
  note pe = print_info_events(3)[OF p]
  note re = resolve_targets_events(3,4)[OF assms(3)]
  have quiet: "ev4 = []" if "opt_verbosity opts < 1"
    using p that by (simp add: print_info_def)
  have ev4: "\<forall>e \<in> set ev4. \<exists>s. e = Stdout s"
    using p by (auto simp add: print_info_def Let_def split: if_splits list.splits option.splits)
  have ev2: "Autodetector_changes \<notin> set ev2"
    using assms(3)
    by (auto simp add: resolve_targets_def Let_def split: if_splits sum.splits lookup_error.splits)
  have s: "run_syncdb_phase env opts run_syncdb (executor_tables env db)
           = (Inr {}, executor_tables env db, [Pre_migrate_signal {}])"
    using assms(5) by (auto simp add: run_syncdb_phase_def)
  have m: "run_migrations env opts targets []
           = (None,
              if 1 \<le> opt_verbosity opts
              then [Stdout ''Running migrations:'', Stdout ''  No migrations to apply.'',
                    Autodetector_changes] @ changes_notice
              else [])"
    using assms(6) by (simp add: run_migrations_def Let_def say_def)
  have i: "filter is_ddl (map (\<lambda>ac. Import_module (name ac)) acs) = []
           \<and> stdout_of (map (\<lambda>ac. Import_module (name ac)) acs) = []
           \<and> Autodetector_changes \<notin> set (map (\<lambda>ac. Import_module (name ac)) acs)" for acs
    by (induction acs) (simp_all add: is_ddl_def)
  have n: "changes_notice
           = [Stdout ''  Your models have changes that are not yet reflected in a migration, and so won't be applied.'',
              Stdout ''  Run 'manage.py makemigrations' to make new migrations, and then re-run 'manage.py migrate' to apply them.'']"
    by (simp add: changes_notice_def quoted_def)
  have h: "handle env opts db
           = (Inr ReturnNone, executor_tables env db,
              ?imports @ [Prepare_database, Migration_executor, Detect_conflicts] @ ev2
              @ [Migration_plan targets] @ ev4 @ [Pre_migrate_signal {}]
              @ (if opt_test_flush opts then [Call_flush] else [])
              @ (if 1 \<le> opt_verbosity opts
                 then [Stdout ''Running migrations:'', Stdout ''  No migrations to apply.'',
                       Autodetector_changes] @ changes_notice
                 else [])
              @ [Post_migrate_signal {}])"
    using assms(1,2) by (simp add: handle_def Let_def assms(3,4) p s m)
  have ddl: "filter is_ddl (snd (snd (handle env opts db))) = []"
    unfolding h using pe re(1) by (simp add: i n is_ddl_def)
  have loud: "Autodetector_changes \<in> set (snd (snd (handle env opts db)))
            \<and> suffix
                [''  Your models have changes that are not yet reflected in a migration, and so won't be applied.'',
                 ''  Run 'manage.py makemigrations' to make new migrations, and then re-run 'manage.py migrate' to apply them.'']
                (stdout_of (snd (snd (handle env opts db))))"
    if "1 \<le> opt_verbosity opts"
  proof -
    have "stdout_of (snd (snd (handle env opts db)))
          = (stdout_of ev4 @ [''Running migrations:'', ''  No migrations to apply.''])
            @ [''  Your models have changes that are not yet reflected in a migration, and so won't be applied.'',
               ''  Run 'manage.py makemigrations' to make new migrations, and then re-run 'manage.py migrate' to apply them.'']"
      unfolding h using that re(2) by (simp add: i n)
    then have "suffix
                [''  Your models have changes that are not yet reflected in a migration, and so won't be applied.'',
                 ''  Run 'manage.py makemigrations' to make new migrations, and then re-run 'manage.py migrate' to apply them.'']
                (stdout_of (snd (snd (handle env opts db))))"
      by (rule suffixI)
    moreover have "Autodetector_changes \<in> set (snd (snd (handle env opts db)))"
      unfolding h using that by simp
    ultimately show ?thesis by blast
  qed
  have silent: "Autodetector_changes \<notin> set (snd (snd (handle env opts db)))
            \<and> stdout_of (snd (snd (handle env opts db))) = []"
    if "opt_verbosity opts < 1"
    unfolding h using that quiet[OF that] re(2) ev2 by (auto simp add: i)
  from h ddl loud silent show ?thesis by simp
qed

theorem undeclared_changes_reported_witness:
  "fst (handle project (default_options\<lparr>opt_app_label := Some ''shop''\<rparr>) {}) = Inr ReturnNone
   \<and> stdout_of (snd (snd (handle project (default_options\<lparr>opt_app_label := Some ''shop''\<rparr>) {})))
     = [''Operations to perform:'', ''  Apply all migrations: shop'', ''Running migrations:'',
        ''  No migrations to apply.'',
        ''  Your models have changes that are not yet reflected in a migration, and so won't be applied.'',
        ''  Run 'manage.py makemigrations' to make new migrations, and then re-run 'manage.py migrate' to apply them.'']
   \<and> filter is_ddl (snd (snd (handle project (default_options\<lparr>opt_app_label := Some ''shop''\<rparr>) {})))
     = []"
proof -
  let ?opts = "default_options\<lparr>opt_app_label := Some ''shop''\<rparr>"
  have r: "resolve_targets project ?opts
           = (Inr ([(''shop'', Some ''0002_add_price'')], False, True), [Leaf_nodes])"
    by (simp add: resolve_targets_def Let_def arg_def as_target_def project_def default_options_def)
  have a: "\<not> opt_list ?opts" "conflicts project = []"
    "migration_plan project [(''shop'', Some ''0002_add_price'')] = []"
    "\<not> (False \<and> unmigrated_apps project \<noteq> [])" "changes project \<noteq> []"
    by (simp_all add: project_def default_options_def)
  have s: "stdout_of (snd (snd (handle project ?opts {})))
     = [''Operations to perform:'', ''  Apply all migrations: shop'', ''Running migrations:'',
        ''  No migrations to apply.'',
        ''  Your models have changes that are not yet reflected in a migration, and so won't be applied.'',
        ''  Run 'manage.py makemigrations' to make new migrations, and then re-run 'manage.py migrate' to apply them.'']"
    by (simp add: handle_def Let_def r print_info_def run_syncdb_phase_def run_migrations_def
          say_def changes_notice_def quoted_def)
       (simp add: project_defs)
  from undeclared_changes_reported[OF a(1,2) r a(3,4,5), of "{}"] s show ?thesis
    by simp
qed

text \<open>
  C9 as stated fails at verbosity 0: the autodetector is only asked inside
  \<open>if self.verbosity >= 1\<close> (line 192), so the changes there are go unreported.
\<close>

theorem silent_run_reports_nothing:
  "changes project \<noteq> []
   \<and> migration_plan project [(''shop'', Some ''0002_add_price'')] = []
   \<and> handle project (default_options\<lparr>opt_verbosity := 0, opt_app_label := Some ''shop''\<rparr>) {}
     = (Inr ReturnNone, {''django_migrations''},
        [Import_module ''site.blog'', Prepare_database, Migration_executor, Detect_conflicts,
         Leaf_nodes, Migration_plan [(''shop'', Some ''0002_add_price'')],
         Pre_migrate_signal {}, Post_migrate_signal {}])"
  by (simp add: handle_def Let_def resolve_targets_def arg_def as_target_def print_info_def
        run_syncdb_phase_def run_migrations_def say_def project_defs)

lemma count_list_concat:
  "count_list (concat xss) s = sum_list (map (\<lambda>xs. count_list xs s) xss)"
  by (induction xss) simp_all

lemma count_list_prefix: "prefix xs ys \<Longrightarrow> count_list xs s \<le> count_list ys s"
  by (auto simp add: prefix_def)

text \<open>
  C10 (as amended). In every run of \<open>sync_apps\<close> every schema editor leaves its block with an
  empty \<open>deferred_sql\<close> (line 286 has emptied it), and no statement is executed as a deferred
  statement more often than the models passed to \<open>create_model\<close> produced it. When the
  creation phase (lines 271-292) does not raise, one editor was used per created model and
  each statement is executed exactly as often as the created models produced it: none is
  dropped and none is run twice. When the creation phase raises, statements already queued
  may never be executed.
\<close>

theorem deferred_sql_exactly_once:
  assumes "sync_apps env opts db app_labels = (r, db', ev)"
  shows "list_all (\<lambda>buffer. buffer = []) (editor_exits ev)
       \<and> (\<forall>s. count_list (deferred_of ev) s
               \<le> sum_list (map (\<lambda>m. count_list (editor_deferred_sql env m) s) (created_of ev)))
       \<and> (fst (create_tables env opts db (manifest env db app_labels)) = None \<longrightarrow>
            created_of ev = creatable (manifest env db app_labels)
            \<and> length (editor_exits ev) = length (created_of ev)
            \<and> (\<forall>s. count_list (deferred_of ev) s
                    = sum_list (map (\<lambda>m. count_list (editor_deferred_sql env m) s) (created_of ev))))"
  using assms
proof (cases rule: sync_apps_creation_events)
  case (1 st ev2 r2)
  note e = create_tables_events[OF 1(1)]
  have most: "count_list (deferred_of ev2) s
              \<le> sum_list (map (\<lambda>m. count_list (editor_deferred_sql env m) s) (created_of ev2))" for s
    using count_list_prefix[OF e(2), of s] by (simp add: count_list_concat comp_def)
  have "created_of ev2 = creatable (manifest env db app_labels)
        \<and> length (editor_exits ev2) = length (created_of ev2)
        \<and> (\<forall>s. count_list (deferred_of ev2) s
               = sum_list (map (\<lambda>m. count_list (editor_deferred_sql env m) s) (created_of ev2)))"
    if "fst (create_tables env opts db (manifest env db app_labels)) = None"
  proof -
    from that 1(1) have ok: "create_tables env opts db (manifest env db app_labels) = (None, st, ev2)"
      by simp
    show ?thesis
      by (simp add: create_tables_ok[OF ok] count_list_concat comp_def)
  qed
  with create_tables_kept[OF 1(1)] most show ?thesis
    unfolding 1(4,5,6) by blast
qed

theorem deferred_sql_exactly_once_witness:
  "editor_exits (snd (snd (sync_apps project default_options {} [''blog'']))) = [[], []]
   \<and> created_of (snd (snd (sync_apps project default_options {} [''blog''])))
     = creatable (manifest project {} [''blog''])
   \<and> count_list (deferred_of (snd (snd (sync_apps project default_options {} [''blog''])))) 
        ''ALTER TABLE blog_tag ADD CONSTRAINT fk'' = 1"
proof -
  have ok: "fst (create_tables project default_options {} (manifest project {} [''blog''])) = None"
    by (simp add: project_manifest project_create_tables)
  from deferred_sql_exactly_once[OF project_sync_apps] ok show ?thesis
    by (simp add: project_sync_apps)
qed

text \<open>
  C10 as stated fails for a run that raises: on a backend that cannot roll DDL back, the
  table of \<open>Post\<close> is created and stays, creating the table of \<open>Tag\<close> raises, and the
  statement queued for \<open>Post\<close> is never executed.
\<close>

theorem failed_run_drops_deferred_sql:
  "editor_deferred_sql failing_project post = [''ALTER TABLE blog_post ADD CONSTRAINT fk'']
   \<and> sync_apps failing_project default_options {} [''blog'']
     = (Inl (DatabaseError ''disk full''), {''blog_post''},
        [Cursor_open, Table_names, Pre_migrate_signal {post, tag, legacy, post_proxy},
         Stdout ''  Creating tables...\<newline>'', Atomic_enter False,
         Schema_editor_enter, Stdout ''    Creating table blog_post\<newline>'', Create_model post,
         Schema_editor_exit [],
         Schema_editor_enter, Stdout ''    Creating table blog_tag\<newline>'', Create_model tag,
         Schema_editor_abort,
         Atomic_rollback, Cursor_close])"
  by (simp add: sync_apps_def Let_def manifest_def all_models_def ordered_dict_def
        model_installed_def chain_values_def create_tables_def create_model_iter_def
        table_created_def rolled_back_def say_def failing_project_def project_defs)

end
